theory Spec2Isabelle
  imports Main "HOL-Library.Word"
begin

section \<open>Data model of the device\<close>

text \<open>
  The Go types of \<^verbatim>\<open>device.go\<close>. Go's \<^verbatim>\<open>int\<close> is taken at its 64-bit width; its
  comparisons are the signed ones (\<open><s\<close>, \<open>\<le>s\<close>) and its arithmetic wraps around.
  A \<^verbatim>\<open>[32]byte\<close> key is a 256-bit word. A \<^verbatim>\<open>*Peer\<close> is an address into a
  store of peers, so that the key map and the allowed-IPs table can refer to the same peer.
\<close>

type_synonym go_int = "64 word"
type_synonym int64 = "64 word"
type_synonym uint32 = "32 word"
type_synonym uint16 = "16 word"
type_synonym NoisePublicKey = "256 word"
type_synonym NoisePrivateKey = "256 word"
type_synonym peer_ref = nat

datatype deviceState = deviceStateDown | deviceStateUp | deviceStateClosed

subsection \<open>Errors\<close>

text \<open>
  \<^verbatim>\<open>ipcErrorf(code, format, args...)\<close> builds an \<^verbatim>\<open>IPCError\<close>; the model keeps the code,
  which of the function's seven messages it is, with the numbers printed in it, and the
  error wrapped by a trailing \<^verbatim>\<open>%w\<close> (\<open>None\<close> for the variant without \<^verbatim>\<open>%w\<close>).
  Errors of the bind are opaque to the device: \<open>ExternalError\<close>.
\<close>

datatype ipcCode = IpcErrorInvalid

datatype ipcMessage =
    JunkPacketCountNegative
  | JunkPacketMaxSizeTooLarge go_int go_int
  | MaxSizeBelowMinSize go_int go_int
  | InitSizeTooLarge go_int go_int
  | ResponseSizeTooLarge go_int go_int
  | MagicHeadersShouldDiffer uint32 uint32 uint32 uint32
  | InitAndResponseSizeShouldDiffer go_int go_int

datatype error =
    ExternalError string
  | IPCError ipcCode ipcMessage "error option"

subsection \<open>Logger output and calls into collaborators\<close>

datatype logArg = ArgState deviceState | ArgError error

datatype logEntry = Verbosef string "logArg list" | Errorf string "logArg list"

text \<open>
  Methods of \<^verbatim>\<open>Peer\<close>, \<^verbatim>\<open>AllowedIPs\<close>, \<^verbatim>\<open>CookieChecker\<close>, the queues, the TUN device
  and the rate limiter are not part of \<^verbatim>\<open>device.go\<close>. Each call is recorded, in program
  order, in the device's list of calls.
\<close>

datatype call =
    PeerStart peer_ref
  | PeerStop peer_ref
  | PeerSendKeepalive peer_ref
  | PeerMarkEndpointSrcForClearing peer_ref
  | PeerExpireCurrentKeypairs peer_ref
  | AllowedIPsRemoveByPeer peer_ref
  | CookieCheckerInit NoisePublicKey
  | NetlinkCancel
  | NetStoppingWait
  | NetStoppingAdd nat
  | DecryptionAdd nat
  | HandshakeAdd nat
  | GoRoutineReceiveIncoming go_int nat
  | TunDeviceClose
  | EncryptionDone
  | DecryptionDone
  | HandshakeDone
  | StateStoppingWait
  | RateLimiterClose

subsection \<open>Peers, obfuscation configuration, device\<close>

record Peer =
  handshake_remoteStatic :: NoisePublicKey
  handshake_precomputedStaticStatic :: "256 word"
  persistentKeepaliveInterval :: uint32

record aSecConfType =
  isSet :: bool
  junkPacketCount :: go_int
  junkPacketMinSize :: go_int
  junkPacketMaxSize :: go_int
  initPacketJunkSize :: go_int
  responsePacketJunkSize :: go_int
  initPacketMagicHeader :: uint32
  responsePacketMagicHeader :: uint32
  underloadPacketMagicHeader :: uint32
  transportPacketMagicHeader :: uint32

text \<open>
  The bind is an interface (\<^verbatim>\<open>conn.Bind\<close>): its methods are a parameter of the model,
  acting on a bind state \<open>'b\<close>. \<open>Open\<close> returns the number of receive functions and the
  actual port, or an error.
\<close>

record 'b Bind =
  Open :: "'b \<Rightarrow> uint16 \<Rightarrow> 'b \<times> (error + nat \<times> uint16)"
  Close :: "'b \<Rightarrow> 'b \<times> error option"
  SetMark :: "'b \<Rightarrow> uint32 \<Rightarrow> 'b \<times> error option"
  BatchSize :: "'b \<Rightarrow> go_int"

text \<open>
  The fields of \<^verbatim>\<open>Device\<close> that the modelled functions read or write. The key map is an
  association list: its order is the order in which \<^verbatim>\<open>range\<close> visits the map, which Go
  leaves unspecified, and no theorem below depends on it. \<open>net_bind = None\<close> is the nil
  interface, \<open>net_netlinkCancel\<close> says whether the pointer is non-nil, \<open>closed\<close> whether
  the channel has been closed.

  Modelled from the spec: the allowed-IPs table (\<^verbatim>\<open>allowedips.go\<close> is missing) is the list
  of its leaves, each a prefix with the peer it references.
\<close>

record 'b Device =
  state_state :: deviceState
  net_bind :: "'b option"
  net_netlinkCancel :: bool
  net_port :: uint16
  net_fwmark :: uint32
  staticIdentity_privateKey :: NoisePrivateKey
  staticIdentity_publicKey :: NoisePublicKey
  peers_keyMap :: "(NoisePublicKey \<times> peer_ref) list"
  peer_store :: "peer_ref \<Rightarrow> Peer"
  rate_underLoadUntil :: int64
  allowedips :: "(bool list \<times> peer_ref) list"
  closed :: bool
  dev_log :: "logEntry list"
  isASecOn :: bool
  aSecConf :: aSecConfType
  calls :: "call list"

text \<open>The process-wide variables of \<^verbatim>\<open>noise-protocol.go\<close> that \<^verbatim>\<open>handlePostConfig\<close> assigns.\<close>

record Globals =
  MessageInitiationType :: uint32
  MessageResponseType :: uint32
  MessageCookieReplyType :: uint32
  MessageTransportType :: uint32
  packetSizeToMsgType :: "go_int \<rightharpoonup> uint32"
  msgTypeToJunkSize :: "uint32 \<rightharpoonup> go_int"

subsection \<open>Constants\<close>

definition QueueHandshakeSize :: go_int where
  "QueueHandshakeSize = 1024"

definition MaxSegmentSize :: go_int where
  "MaxSegmentSize = 2 ^ 16 - 1"

text \<open>
  Modelled from the spec: \<^verbatim>\<open>MessageInitiationSize\<close> and \<^verbatim>\<open>MessageResponseSize\<close> are declared in
  the missing \<^verbatim>\<open>noise-protocol.go\<close>; the spec's framing table and the error messages of
  \<^verbatim>\<open>handlePostConfig\<close> give 148 and 92. \<^verbatim>\<open>MessageCookieReplySize\<close>, \<^verbatim>\<open>MessageTransportSize\<close> and
  \<^verbatim>\<open>UnderLoadAfterTime\<close> are parameters of the functions that use them.
\<close>

definition MessageInitiationSize :: go_int where
  "MessageInitiationSize = 148"

text \<open>Modelled from the spec: the size of a response message, 92 bytes.\<close>

definition MessageResponseSize :: go_int where
  "MessageResponseSize = 92"

section \<open>Load detection\<close>

text \<open>
  \<^verbatim>\<open>IsUnderLoad\<close>, given the reading of the clock as \<^verbatim>\<open>now.UnixNano()\<close> and the length of
  the handshake channel. \<^verbatim>\<open>now.Add(d).UnixNano()\<close> is the 64-bit sum; the comparison of the
  two \<^verbatim>\<open>int64\<close> is signed.
\<close>

definition IsUnderLoad :: "int64 \<Rightarrow> int64 \<Rightarrow> go_int \<Rightarrow> 'b Device \<Rightarrow> bool \<times> 'b Device" where
  "IsUnderLoad UnderLoadAfterTime now len_handshake device =
     (let underLoad = (QueueHandshakeSize div 8 \<le>s len_handshake) in
      if underLoad
      then (True, device\<lparr>rate_underLoadUntil := now + UnderLoadAfterTime\<rparr>)
      else (now <s rate_underLoadUntil device, device))"

section \<open>Obfuscation configuration\<close>

text \<open>
  The variables \<^verbatim>\<open>handlePostConfig\<close> works on while it runs: the named result
  \<^verbatim>\<open>err\<close>, the local \<^verbatim>\<open>isASecOn\<close>, the caller's \<^verbatim>\<open>*tempASecConf\<close> (the function
  increments one of its fields), \<^verbatim>\<open>device.aSecConf\<close>, the lines written to the logger
  and the process-wide variables.
\<close>

record postConfig =
  pc_err :: "error option"
  pc_isASecOn :: bool
  pc_temp :: aSecConfType
  pc_conf :: aSecConfType
  pc_log :: "logEntry list"
  pc_globals :: Globals

text \<open>
  Every check after the first has the shape
  \<^verbatim>\<open>if err != nil { err = ipcErrorf(code, "...; %w", ..., err) } else { err = ipcErrorf(code, "...", ...) }\<close>.
\<close>

definition ipcErrorf_chained :: "ipcMessage \<Rightarrow> error option \<Rightarrow> error option" where
  "ipcErrorf_chained msg err =
     (case err of
        Some e \<Rightarrow> Some (IPCError IpcErrorInvalid msg (Some e))
      | None \<Rightarrow> Some (IPCError IpcErrorInvalid msg None))"

text \<open>The blocks of the function body, in source order.\<close>

definition hpc_junkPacketCount :: "postConfig \<Rightarrow> postConfig" where
  "hpc_junkPacketCount s =
     (let s1 = (if junkPacketCount (pc_temp s) <s 0
                then s\<lparr>pc_err := Some (IPCError IpcErrorInvalid JunkPacketCountNegative None)\<rparr>
                else s);
          s2 = s1\<lparr>pc_conf := (pc_conf s1)\<lparr>junkPacketCount := junkPacketCount (pc_temp s1)\<rparr>\<rparr>
      in if junkPacketCount (pc_temp s2) \<noteq> 0 then s2\<lparr>pc_isASecOn := True\<rparr> else s2)"

definition hpc_junkPacketMinSize :: "postConfig \<Rightarrow> postConfig" where
  "hpc_junkPacketMinSize s =
     (let s1 = s\<lparr>pc_conf := (pc_conf s)\<lparr>junkPacketMinSize := junkPacketMinSize (pc_temp s)\<rparr>\<rparr>
      in if junkPacketMinSize (pc_temp s1) \<noteq> 0 then s1\<lparr>pc_isASecOn := True\<rparr> else s1)"

definition hpc_adjustMaxSize :: "postConfig \<Rightarrow> postConfig" where
  "hpc_adjustMaxSize s =
     (if 0 <s junkPacketCount (pc_conf s) \<and>
         junkPacketMaxSize (pc_temp s) = junkPacketMinSize (pc_temp s)
      then s\<lparr>pc_temp := (pc_temp s)\<lparr>junkPacketMaxSize := junkPacketMaxSize (pc_temp s) + 1\<rparr>\<rparr>
      else s)"

definition hpc_junkPacketMaxSize :: "postConfig \<Rightarrow> postConfig" where
  "hpc_junkPacketMaxSize s =
     (let t = pc_temp s;
          s1 = (if MaxSegmentSize \<le>s junkPacketMaxSize t
                then s\<lparr>pc_conf := (pc_conf s)\<lparr>junkPacketMinSize := 0, junkPacketMaxSize := 1\<rparr>,
                       pc_err := ipcErrorf_chained
                         (JunkPacketMaxSizeTooLarge (junkPacketMaxSize t) MaxSegmentSize) (pc_err s)\<rparr>
                else if junkPacketMaxSize t <s junkPacketMinSize t
                then s\<lparr>pc_err := ipcErrorf_chained
                         (MaxSizeBelowMinSize (junkPacketMaxSize t) (junkPacketMinSize t)) (pc_err s)\<rparr>
                else s\<lparr>pc_conf := (pc_conf s)\<lparr>junkPacketMaxSize := junkPacketMaxSize t\<rparr>\<rparr>)
      in if junkPacketMaxSize t \<noteq> 0 then s1\<lparr>pc_isASecOn := True\<rparr> else s1)"

definition hpc_initPacketJunkSize :: "postConfig \<Rightarrow> postConfig" where
  "hpc_initPacketJunkSize s =
     (let t = pc_temp s;
          s1 = (if MaxSegmentSize \<le>s MessageInitiationSize + initPacketJunkSize t
                then s\<lparr>pc_err := ipcErrorf_chained
                         (InitSizeTooLarge (initPacketJunkSize t) MaxSegmentSize) (pc_err s)\<rparr>
                else s\<lparr>pc_conf := (pc_conf s)\<lparr>initPacketJunkSize := initPacketJunkSize t\<rparr>\<rparr>)
      in if initPacketJunkSize t \<noteq> 0 then s1\<lparr>pc_isASecOn := True\<rparr> else s1)"

definition hpc_responsePacketJunkSize :: "postConfig \<Rightarrow> postConfig" where
  "hpc_responsePacketJunkSize s =
     (let t = pc_temp s;
          s1 = (if MaxSegmentSize \<le>s MessageResponseSize + responsePacketJunkSize t
                then s\<lparr>pc_err := ipcErrorf_chained
                         (ResponseSizeTooLarge (responsePacketJunkSize t) MaxSegmentSize) (pc_err s)\<rparr>
                else s\<lparr>pc_conf := (pc_conf s)\<lparr>responsePacketJunkSize := responsePacketJunkSize t\<rparr>\<rparr>)
      in if responsePacketJunkSize t \<noteq> 0 then s1\<lparr>pc_isASecOn := True\<rparr> else s1)"

definition hpc_initPacketMagicHeader :: "postConfig \<Rightarrow> postConfig" where
  "hpc_initPacketMagicHeader s =
     (if 4 < initPacketMagicHeader (pc_temp s)
      then let c = (pc_conf s)\<lparr>initPacketMagicHeader := initPacketMagicHeader (pc_temp s)\<rparr>
           in s\<lparr>pc_isASecOn := True,
                pc_log := pc_log s @ [Verbosef ''UAPI: Updating init_packet_magic_header'' []],
                pc_conf := c,
                pc_globals := (pc_globals s)\<lparr>MessageInitiationType := initPacketMagicHeader c\<rparr>\<rparr>
      else s\<lparr>pc_log := pc_log s @ [Verbosef ''UAPI: Using default init type'' []],
             pc_globals := (pc_globals s)\<lparr>MessageInitiationType := 1\<rparr>\<rparr>)"

definition hpc_responsePacketMagicHeader :: "postConfig \<Rightarrow> postConfig" where
  "hpc_responsePacketMagicHeader s =
     (if 4 < responsePacketMagicHeader (pc_temp s)
      then let c = (pc_conf s)\<lparr>responsePacketMagicHeader := responsePacketMagicHeader (pc_temp s)\<rparr>
           in s\<lparr>pc_isASecOn := True,
                pc_log := pc_log s @ [Verbosef ''UAPI: Updating response_packet_magic_header'' []],
                pc_conf := c,
                pc_globals := (pc_globals s)\<lparr>MessageResponseType := responsePacketMagicHeader c\<rparr>\<rparr>
      else s\<lparr>pc_log := pc_log s @ [Verbosef ''UAPI: Using default response type'' []],
             pc_globals := (pc_globals s)\<lparr>MessageResponseType := 2\<rparr>\<rparr>)"

definition hpc_underloadPacketMagicHeader :: "postConfig \<Rightarrow> postConfig" where
  "hpc_underloadPacketMagicHeader s =
     (if 4 < underloadPacketMagicHeader (pc_temp s)
      then let c = (pc_conf s)\<lparr>underloadPacketMagicHeader := underloadPacketMagicHeader (pc_temp s)\<rparr>
           in s\<lparr>pc_isASecOn := True,
                pc_log := pc_log s @ [Verbosef ''UAPI: Updating underload_packet_magic_header'' []],
                pc_conf := c,
                pc_globals := (pc_globals s)\<lparr>MessageCookieReplyType := underloadPacketMagicHeader c\<rparr>\<rparr>
      else s\<lparr>pc_log := pc_log s @ [Verbosef ''UAPI: Using default underload type'' []],
             pc_globals := (pc_globals s)\<lparr>MessageCookieReplyType := 3\<rparr>\<rparr>)"

definition hpc_transportPacketMagicHeader :: "postConfig \<Rightarrow> postConfig" where
  "hpc_transportPacketMagicHeader s =
     (if 4 < transportPacketMagicHeader (pc_temp s)
      then let c = (pc_conf s)\<lparr>transportPacketMagicHeader := transportPacketMagicHeader (pc_temp s)\<rparr>
           in s\<lparr>pc_isASecOn := True,
                pc_log := pc_log s @ [Verbosef ''UAPI: Updating transport_packet_magic_header'' []],
                pc_conf := c,
                pc_globals := (pc_globals s)\<lparr>MessageTransportType := transportPacketMagicHeader c\<rparr>\<rparr>
      else s\<lparr>pc_log := pc_log s @ [Verbosef ''UAPI: Using default transport type'' []],
             pc_globals := (pc_globals s)\<lparr>MessageTransportType := 4\<rparr>\<rparr>)"

text \<open>
  \<^verbatim>\<open>isSameMap\<close> is a set of tags: the four assignments insert the four tags, and
  \<^verbatim>\<open>len(isSameMap)\<close> counts the different ones.
\<close>

definition isSameMap_len :: "Globals \<Rightarrow> nat" where
  "isSameMap_len g =
     length (remdups [MessageInitiationType g, MessageResponseType g,
                      MessageCookieReplyType g, MessageTransportType g])"

definition hpc_magicHeadersDiffer :: "postConfig \<Rightarrow> postConfig" where
  "hpc_magicHeadersDiffer s =
     (let g = pc_globals s
      in if isSameMap_len g \<noteq> 4
         then s\<lparr>pc_err := ipcErrorf_chained
                  (MagicHeadersShouldDiffer (MessageInitiationType g) (MessageResponseType g)
                     (MessageCookieReplyType g) (MessageTransportType g)) (pc_err s)\<rparr>
         else s)"

text \<open>
  The two composite literals assign their entries from left to right, so a later entry
  with the same key replaces an earlier one.
\<close>

definition hpc_dispatchTables :: "go_int \<Rightarrow> go_int \<Rightarrow> postConfig \<Rightarrow> postConfig" where
  "hpc_dispatchTables MessageCookieReplySize MessageTransportSize s =
     (let g = pc_globals s;
          newInitSize = MessageInitiationSize + initPacketJunkSize (pc_conf s);
          newResponseSize = MessageResponseSize + responsePacketJunkSize (pc_conf s)
      in if newInitSize = newResponseSize
         then s\<lparr>pc_err := ipcErrorf_chained
                  (InitAndResponseSizeShouldDiffer newInitSize newResponseSize) (pc_err s)\<rparr>
         else s\<lparr>pc_globals := g\<lparr>
                  packetSizeToMsgType :=
                    Map.empty(newInitSize \<mapsto> MessageInitiationType g,
                              newResponseSize \<mapsto> MessageResponseType g,
                              MessageCookieReplySize \<mapsto> MessageCookieReplyType g,
                              MessageTransportSize \<mapsto> MessageTransportType g),
                  msgTypeToJunkSize :=
                    Map.empty(MessageInitiationType g \<mapsto> initPacketJunkSize (pc_conf s),
                              MessageResponseType g \<mapsto> responsePacketJunkSize (pc_conf s),
                              MessageCookieReplyType g \<mapsto> 0,
                              MessageTransportType g \<mapsto> 0)\<rparr>\<rparr>)"

definition hpc_body :: "go_int \<Rightarrow> go_int \<Rightarrow> postConfig \<Rightarrow> postConfig" where
  "hpc_body MessageCookieReplySize MessageTransportSize s =
     hpc_dispatchTables MessageCookieReplySize MessageTransportSize
      (hpc_magicHeadersDiffer
        (hpc_transportPacketMagicHeader
          (hpc_underloadPacketMagicHeader
            (hpc_responsePacketMagicHeader
              (hpc_initPacketMagicHeader
                (hpc_responsePacketJunkSize
                  (hpc_initPacketJunkSize
                    (hpc_junkPacketMaxSize
                      (hpc_adjustMaxSize
                        (hpc_junkPacketMinSize
                          (hpc_junkPacketCount s)))))))))))"

text \<open>The variables once the function has passed its first \<^verbatim>\<open>if\<close>.\<close>

definition hpc_entry :: "aSecConfType \<Rightarrow> 'b Device \<Rightarrow> Globals \<Rightarrow> postConfig" where
  "hpc_entry tempASecConf device globals =
     \<lparr>pc_err = None, pc_isASecOn = False, pc_temp = tempASecConf,
      pc_conf = aSecConf device, pc_log = [], pc_globals = globals\<rparr>"

text \<open>
  \<^verbatim>\<open>handlePostConfig\<close> returns the error, and leaves behind the caller's
  \<^verbatim>\<open>*tempASecConf\<close>, the device and the process-wide variables.
\<close>

definition handlePostConfig ::
  "go_int \<Rightarrow> go_int \<Rightarrow> aSecConfType \<Rightarrow> 'b Device \<Rightarrow> Globals
     \<Rightarrow> error option \<times> aSecConfType \<times> 'b Device \<times> Globals" where
  "handlePostConfig MessageCookieReplySize MessageTransportSize tempASecConf device globals =
     (if \<not> isSet tempASecConf then (None, tempASecConf, device, globals)
      else
        let s = hpc_body MessageCookieReplySize MessageTransportSize
                  (hpc_entry tempASecConf device globals)
        in (pc_err s, pc_temp s,
            device\<lparr>aSecConf := pc_conf s, dev_log := dev_log device @ pc_log s,
                   isASecOn := pc_isASecOn s\<rparr>,
            pc_globals s))"

section \<open>Peer registry\<close>


text \<open>\<^verbatim>\<open>delete(device.peers.keyMap, key)\<close>.\<close>

definition keyMap_delete ::
  "NoisePublicKey \<Rightarrow> (NoisePublicKey \<times> peer_ref) list \<Rightarrow> (NoisePublicKey \<times> peer_ref) list" where
  "keyMap_delete key m = filter (\<lambda>(k, p). k \<noteq> key) m"

text \<open>
  Modelled from the spec: \<^verbatim>\<open>AllowedIPs.RemoveByPeer\<close> (\<^verbatim>\<open>allowedips.go\<close> is missing)
  "walks the tree and detaches every leaf referencing \<^verbatim>\<open>peer\<close>".
\<close>

definition RemoveByPeer :: "peer_ref \<Rightarrow> (bool list \<times> peer_ref) list \<Rightarrow> (bool list \<times> peer_ref) list" where
  "RemoveByPeer peer t = filter (\<lambda>(prefix, p). p \<noteq> peer) t"

definition removePeerLocked :: "'b Device \<Rightarrow> peer_ref \<Rightarrow> NoisePublicKey \<Rightarrow> 'b Device" where
  "removePeerLocked device peer key =
     (let d1 = device\<lparr>allowedips := RemoveByPeer peer (allowedips device),
                      calls := calls device @ [AllowedIPsRemoveByPeer peer]\<rparr>;
          d2 = d1\<lparr>calls := calls d1 @ [PeerStop peer]\<rparr>
      in d2\<lparr>peers_keyMap := keyMap_delete key (peers_keyMap d2)\<rparr>)"


text \<open>
  A \<^verbatim>\<open>range\<close> loop over the key map whose body deletes at most the entry it is visiting
  visits every entry that was in the map when the loop began.
\<close>

definition RemoveAllPeers :: "'b Device \<Rightarrow> 'b Device" where
  "RemoveAllPeers device =
     (fold (\<lambda>(key, peer) d. removePeerLocked d peer key) (peers_keyMap device) device)
       \<lparr>peers_keyMap := []\<rparr>"

section \<open>Device state machine\<close>

text \<open>
  Each method is modelled as it runs under the mutexes it takes, without interference:
  the mutexes are not part of the state, and waiting on a wait group is recorded as a
  call.
\<close>

definition deviceState :: "'b Device \<Rightarrow> deviceState" where
  "deviceState device = state_state device"

definition isClosed :: "'b Device \<Rightarrow> bool" where
  "isClosed device = (deviceState device = deviceStateClosed)"

definition isUp :: "'b Device \<Rightarrow> bool" where
  "isUp device = (deviceState device = deviceStateUp)"

definition closeBindLocked :: "'b Bind \<Rightarrow> 'b Device \<Rightarrow> error option \<times> 'b Device" where
  "closeBindLocked B device =
     (let d1 = (if net_netlinkCancel device
                then device\<lparr>calls := calls device @ [NetlinkCancel]\<rparr> else device);
          (err, d2) = (case net_bind d1 of
                         Some b \<Rightarrow> (let (b', e) = Close B b in (e, d1\<lparr>net_bind := Some b'\<rparr>))
                       | None \<Rightarrow> (None, d1))
      in (err, d2\<lparr>calls := calls d2 @ [NetStoppingWait]\<rparr>))"

text \<open>\<^verbatim>\<open>startRouteListener\<close> of the build without Linux: no listener and no error.\<close>

definition startRouteListener :: "'b \<Rightarrow> bool \<times> error option" where
  "startRouteListener bind = (False, None)"

text \<open>
  The end of \<^verbatim>\<open>BindUpdate\<close>, once the sockets are open and marked: \<open>n\<close> is
  \<^verbatim>\<open>len(recvFns)\<close>.
\<close>

definition BindUpdate_start :: "'b Bind \<Rightarrow> 'b \<Rightarrow> nat \<Rightarrow> 'b Device \<Rightarrow> 'b Device" where
  "BindUpdate_start B b n device =
     (let d1 = device\<lparr>calls := calls device
                  @ map (\<lambda>(key, peer). PeerMarkEndpointSrcForClearing peer) (peers_keyMap device)\<rparr>;
          d2 = d1\<lparr>calls := calls d1 @ [NetStoppingAdd n, DecryptionAdd n, HandshakeAdd n]\<rparr>;
          batchSize = BatchSize B b;
          d3 = d2\<lparr>calls := calls d2 @ map (GoRoutineReceiveIncoming batchSize) [0..<n]\<rparr>
      in d3\<lparr>dev_log := dev_log d3 @ [Verbosef ''UDP bind has been updated'' []]\<rparr>)"

text \<open>
  \<open>None\<close> is a panic: with the device up and no bind, \<^verbatim>\<open>netc.bind.Open\<close> is a method
  call on a nil interface.
\<close>

definition BindUpdate :: "'b Bind \<Rightarrow> 'b Device \<Rightarrow> (error option \<times> 'b Device) option" where
  "BindUpdate B device =
     (case closeBindLocked B device of
        (Some e, d1) \<Rightarrow> Some (Some e, d1)
      | (None, d1) \<Rightarrow>
          if \<not> isUp d1 then Some (None, d1)
          else
            (case net_bind d1 of
               None \<Rightarrow> None
             | Some b \<Rightarrow>
                 (case Open B b (net_port d1) of
                    (b1, Inl e) \<Rightarrow> Some (Some e, d1\<lparr>net_bind := Some b1, net_port := 0\<rparr>)
                  | (b1, Inr (n, port)) \<Rightarrow>
                      (let d2 = d1\<lparr>net_bind := Some b1, net_port := port\<rparr>
                       in case startRouteListener b1 of
                            (cancel, Some e) \<Rightarrow>
                              (let (b2, _) = Close B b1
                               in Some (Some e, d2\<lparr>net_netlinkCancel := cancel,
                                                    net_bind := Some b2, net_port := 0\<rparr>))
                          | (cancel, None) \<Rightarrow>
                              (let d3 = d2\<lparr>net_netlinkCancel := cancel\<rparr>
                               in if net_fwmark d3 \<noteq> 0
                                  then (case SetMark B b1 (net_fwmark d3) of
                                          (b2, Some e) \<Rightarrow> Some (Some e, d3\<lparr>net_bind := Some b2\<rparr>)
                                        | (b2, None) \<Rightarrow>
                                            Some (None, BindUpdate_start B b2 n (d3\<lparr>net_bind := Some b2\<rparr>)))
                                  else Some (None, BindUpdate_start B b1 n d3))))))"

definition BindClose :: "'b Bind \<Rightarrow> 'b Device \<Rightarrow> error option \<times> 'b Device" where
  "BindClose B device = closeBindLocked B device"

definition upLocked_peer :: "peer_ref \<Rightarrow> 'b Device \<Rightarrow> 'b Device" where
  "upLocked_peer peer device =
     (let d1 = device\<lparr>calls := calls device @ [PeerStart peer]\<rparr>
      in if 0 < persistentKeepaliveInterval (peer_store d1 peer)
         then d1\<lparr>calls := calls d1 @ [PeerSendKeepalive peer]\<rparr> else d1)"

definition upLocked :: "'b Bind \<Rightarrow> 'b Device \<Rightarrow> (error option \<times> 'b Device) option" where
  "upLocked B device =
     (case BindUpdate B device of
        None \<Rightarrow> None
      | Some (Some err, d1) \<Rightarrow>
          Some (Some err, d1\<lparr>dev_log := dev_log d1 @ [Errorf ''Unable to update bind: %v'' [ArgError err]]\<rparr>)
      | Some (None, d1) \<Rightarrow>
          Some (None, fold (\<lambda>(key, peer). upLocked_peer peer) (peers_keyMap d1) d1))"

definition downLocked :: "'b Bind \<Rightarrow> 'b Device \<Rightarrow> error option \<times> 'b Device" where
  "downLocked B device =
     (let (err, d1) = BindClose B device;
          d2 = (case err of
                  Some e \<Rightarrow> d1\<lparr>dev_log := dev_log d1 @ [Errorf ''Bind close failed: %v'' [ArgError e]]\<rparr>
                | None \<Rightarrow> d1)
      in (err, d2\<lparr>calls := calls d2 @ map (\<lambda>(key, peer). PeerStop peer) (peers_keyMap d2)\<rparr>))"

text \<open>
  The \<^verbatim>\<open>case deviceStateDown\<close> arm of \<^verbatim>\<open>changeState\<close>, entered either directly
  (\<open>err = None\<close>) or by \<^verbatim>\<open>fallthrough\<close> from the arm above with the error of
  \<^verbatim>\<open>upLocked\<close>.
\<close>

definition changeState_down :: "'b Bind \<Rightarrow> error option \<Rightarrow> 'b Device \<Rightarrow> error option \<times> 'b Device" where
  "changeState_down B err device =
     (let (errDown, d1) = downLocked B (device\<lparr>state_state := deviceStateDown\<rparr>)
      in (if err = None then errDown else err, d1))"

definition changeState_log :: "deviceState \<Rightarrow> deviceState \<Rightarrow> 'b Device \<Rightarrow> 'b Device" where
  "changeState_log old want device =
     device\<lparr>dev_log := dev_log device @
       [Verbosef ''Interface state was %s, requested %s, now %s''
          [ArgState old, ArgState want, ArgState (deviceState device)]]\<rparr>"

definition changeState ::
  "'b Bind \<Rightarrow> deviceState \<Rightarrow> 'b Device \<Rightarrow> (error option \<times> 'b Device) option" where
  "changeState B want device =
     (let old = deviceState device
      in if old = deviceStateClosed
         then Some (None, device\<lparr>dev_log := dev_log device @
                 [Verbosef ''Interface closed, ignored requested state %s'' [ArgState want]]\<rparr>)
         else if want = old then Some (None, device)
         else if want = deviceStateUp
         then (case upLocked B (device\<lparr>state_state := deviceStateUp\<rparr>) of
                 None \<Rightarrow> None
               | Some (None, d1) \<Rightarrow> Some (None, changeState_log old want d1)
               | Some (Some e, d1) \<Rightarrow>
                   (let (err, d2) = changeState_down B (Some e) d1
                    in Some (err, changeState_log old want d2)))
         else if want = deviceStateDown
         then (let (err, d1) = changeState_down B None device
               in Some (err, changeState_log old want d1))
         else Some (None, changeState_log old want device))"

definition Up :: "'b Bind \<Rightarrow> 'b Device \<Rightarrow> (error option \<times> 'b Device) option" where
  "Up B device = changeState B deviceStateUp device"

definition Down :: "'b Bind \<Rightarrow> 'b Device \<Rightarrow> (error option \<times> 'b Device) option" where
  "Down B device = changeState B deviceStateDown device"

definition Close_device :: "'b Bind \<Rightarrow> 'b Device \<Rightarrow> 'b Device" where
  "Close_device B device =
     (if isClosed device then device
      else
        let d1 = device\<lparr>state_state := deviceStateClosed,
                        dev_log := dev_log device @ [Verbosef ''Device closing'' []]\<rparr>;
            d2 = d1\<lparr>calls := calls d1 @ [TunDeviceClose]\<rparr>;
            (_, d3) = downLocked B d2;
            d4 = RemoveAllPeers d3;
            d5 = d4\<lparr>calls := calls d4 @ [EncryptionDone, DecryptionDone, HandshakeDone,
                                          StateStoppingWait, RateLimiterClose]\<rparr>
        in d5\<lparr>dev_log := dev_log d5 @ [Verbosef ''Device closed'' []], closed := True\<rparr>)"

text \<open>The three lifecycle requests a caller can make, and a sequence of them.\<close>

datatype request = ReqUp | ReqDown | ReqClose

definition request_step :: "'b Bind \<Rightarrow> request \<Rightarrow> 'b Device \<Rightarrow> (error option \<times> 'b Device) option" where
  "request_step B r device =
     (case r of
        ReqUp \<Rightarrow> Up B device
      | ReqDown \<Rightarrow> Down B device
      | ReqClose \<Rightarrow> Some (None, Close_device B device))"

fun requests :: "'b Bind \<Rightarrow> request list \<Rightarrow> 'b Device \<Rightarrow> 'b Device option" where
  "requests B [] device = Some device"
| "requests B (r # rs) device =
     (case request_step B r device of
        None \<Rightarrow> None
      | Some (err, d1) \<Rightarrow> requests B rs d1)"

section \<open>Static identity\<close>

text \<open>
  \<^verbatim>\<open>NoisePrivateKey.publicKey\<close> and \<^verbatim>\<open>NoisePrivateKey.sharedSecret\<close> are Curve25519
  operations of a file that is not part of the model: they are parameters.
\<close>

record Noise =
  publicKey :: "NoisePrivateKey \<Rightarrow> NoisePublicKey"
  sharedSecret :: "NoisePrivateKey \<Rightarrow> NoisePublicKey \<Rightarrow> 256 word \<times> error option"

definition removeMatching :: "NoisePublicKey \<Rightarrow> NoisePublicKey \<times> peer_ref \<Rightarrow> 'b Device \<Rightarrow> 'b Device" where
  "removeMatching pk = (\<lambda>(key, peer) d.
     if handshake_remoteStatic (peer_store d peer) = pk
     then removePeerLocked d peer key else d)"

definition precompute :: "Noise \<Rightarrow> NoisePublicKey \<times> peer_ref \<Rightarrow> 'b Device \<Rightarrow> 'b Device" where
  "precompute N = (\<lambda>(key, peer) d.
     let handshake = peer_store d peer;
         ss = fst (sharedSecret N (staticIdentity_privateKey d) (handshake_remoteStatic handshake))
     in d\<lparr>peer_store := (peer_store d)(peer := handshake\<lparr>handshake_precomputedStaticStatic := ss\<rparr>)\<rparr>)"

definition SetPrivateKey :: "Noise \<Rightarrow> NoisePrivateKey \<Rightarrow> 'b Device \<Rightarrow> error option \<times> 'b Device" where
  "SetPrivateKey N sk device =
     (if sk = staticIdentity_privateKey device then (None, device)
      else
        let pk = publicKey N sk;
            d1 = fold (removeMatching pk) (peers_keyMap device) device;
            d2 = d1\<lparr>staticIdentity_privateKey := sk, staticIdentity_publicKey := pk,
                    calls := calls d1 @ [CookieCheckerInit pk]\<rparr>;
            d3 = fold (precompute N) (peers_keyMap d2) d2;
            expiredPeers = map snd (peers_keyMap d2)
        in (None, d3\<lparr>calls := calls d3 @ map PeerExpireCurrentKeypairs expiredPeers\<rparr>))"

section \<open>Bounded object pool\<close>

text \<open>
  Modelled from the spec: \<^verbatim>\<open>WaitPool\<close> (\<^verbatim>\<open>pools.go\<close> is missing; the test reads its
  fields \<^verbatim>\<open>count\<close> and \<^verbatim>\<open>max\<close>). The pool has a ceiling \<open>max\<close> (0 means no gating), a
  factory, a counter of in-flight elements and a freelist. \<open>pool_out\<close> lists the
  elements obtained and not yet returned.

  \<^verbatim>\<open>get()\<close> "blocks while the count of in-flight elements already equals \<^verbatim>\<open>max\<close>. When
  admitted, increments the in-flight counter; returns either a recycled element from an
  internal freelist or a freshly constructed one." \<^verbatim>\<open>put(e)\<close> "decrements the in-flight
  counter, wakes exactly one waiter (if any), and returns \<^verbatim>\<open>e\<close> to the freelist."

  Each completed \<^verbatim>\<open>get\<close> and \<^verbatim>\<open>put\<close> is one atomic step; a trace of the pool is a list
  of steps taken by any of its users. A \<^verbatim>\<open>get\<close> that blocks is not a step (\<open>None\<close>), and
  neither is a \<^verbatim>\<open>put\<close> of an element that is not outstanding: "every successfully
  obtained element is returned exactly once".
\<close>

record 'a WaitPool =
  pool_max :: nat
  pool_factory :: "unit \<Rightarrow> 'a"
  pool_count :: nat
  pool_free :: "'a list"
  pool_out :: "'a list"

text \<open>Modelled from the spec: a new pool has nothing in flight and an empty freelist.\<close>

definition NewWaitPool :: "nat \<Rightarrow> (unit \<Rightarrow> 'a) \<Rightarrow> 'a WaitPool" where
  "NewWaitPool m new =
     \<lparr>pool_max = m, pool_factory = new, pool_count = 0, pool_free = [], pool_out = []\<rparr>"

text \<open>
  Modelled from the spec: \<^verbatim>\<open>get()\<close>; \<open>None\<close> when it blocks, otherwise the element
  and the pool after the step.
\<close>

definition pool_Get :: "'a WaitPool \<Rightarrow> ('a \<times> 'a WaitPool) option" where
  "pool_Get p =
     (if pool_max p \<noteq> 0 \<and> pool_count p = pool_max p then None
      else
        let p1 = p\<lparr>pool_count := pool_count p + 1\<rparr>
        in case pool_free p1 of
             e # es \<Rightarrow> Some (e, p1\<lparr>pool_free := es, pool_out := e # pool_out p1\<rparr>)
           | [] \<Rightarrow> (let e = pool_factory p1 () in Some (e, p1\<lparr>pool_out := e # pool_out p1\<rparr>)))"

text \<open>
  Modelled from the spec: \<^verbatim>\<open>put(e)\<close> for an outstanding element \<open>e\<close>. With an element
  outstanding the counter is positive in every state a trace reaches, so the
  subtraction is exact there.
\<close>

definition pool_Put :: "'a \<Rightarrow> 'a WaitPool \<Rightarrow> 'a WaitPool option" where
  "pool_Put e p =
     (if e \<in> set (pool_out p)
      then Some (p\<lparr>pool_count := pool_count p - 1, pool_free := e # pool_free p,
                   pool_out := remove1 e (pool_out p)\<rparr>)
      else None)"

text \<open>Modelled from the spec: the steps of a trace, and the pool after a trace.\<close>

datatype 'a pool_step = Get | Put 'a

fun pool_trace :: "'a pool_step list \<Rightarrow> 'a WaitPool \<Rightarrow> 'a WaitPool option" where
  "pool_trace [] p = Some p"
| "pool_trace (Get # steps) p =
     (case pool_Get p of None \<Rightarrow> None | Some (e, p1) \<Rightarrow> pool_trace steps p1)"
| "pool_trace (Put e # steps) p =
     (case pool_Put e p of None \<Rightarrow> None | Some p1 \<Rightarrow> pool_trace steps p1)"

section \<open>Descriptions used in the properties\<close>

text \<open>
  The calls that removing the listed registry entries makes, in order: for each peer,
  \<^verbatim>\<open>RemoveByPeer\<close> and then \<^verbatim>\<open>Stop\<close>.
\<close>

definition removal_calls :: "(NoisePublicKey \<times> peer_ref) list \<Rightarrow> call list" where
  "removal_calls xs = concat (map (\<lambda>(key, peer). [AllowedIPsRemoveByPeer peer, PeerStop peer]) xs)"

text \<open>\<^verbatim>\<open>removePeerLocked\<close> applied to each listed entry in turn.\<close>

definition remove_all :: "(NoisePublicKey \<times> peer_ref) list \<Rightarrow> 'b Device \<Rightarrow> 'b Device" where
  "remove_all xs d = fold (\<lambda>(key, peer) d. removePeerLocked d peer key) xs d"

text \<open>
  The registry entries whose peer has the public key of \<open>sk\<close> as its remote static
  key, and the entries that share no key with them.
\<close>

definition matching :: "Noise \<Rightarrow> NoisePrivateKey \<Rightarrow> 'b Device \<Rightarrow> (NoisePublicKey \<times> peer_ref) list" where
  "matching N sk d =
     filter (\<lambda>(key, peer). handshake_remoteStatic (peer_store d peer) = publicKey N sk) (peers_keyMap d)"

definition survivors :: "Noise \<Rightarrow> NoisePrivateKey \<Rightarrow> 'b Device \<Rightarrow> (NoisePublicKey \<times> peer_ref) list" where
  "survivors N sk d = filter (\<lambda>(k, p). k \<notin> fst ` set (matching N sk d)) (peers_keyMap d)"

text \<open>
  The counter of the pool agrees with the number of outstanding elements and respects
  the ceiling.
\<close>

definition pool_inv :: "'a WaitPool \<Rightarrow> bool" where
  "pool_inv p = (pool_count p = length (pool_out p)
                 \<and> (0 < pool_max p \<longrightarrow> pool_count p \<le> pool_max p))"

text \<open>
  The conditions under which \<^verbatim>\<open>handlePostConfig\<close> assigns an error to \<^verbatim>\<open>err\<close>, as
  the function evaluates them on the submitted configuration: comparisons of \<^verbatim>\<open>int\<close>
  are signed, sums wrap around at 64 bits.
\<close>

definition checks_fail :: "aSecConfType \<Rightarrow> bool" where
  "checks_fail t =
     (let maxSize = (if 0 <s junkPacketCount t \<and> junkPacketMaxSize t = junkPacketMinSize t
                     then junkPacketMaxSize t + 1 else junkPacketMaxSize t)
      in junkPacketCount t <s 0
       \<or> MaxSegmentSize \<le>s maxSize \<or> maxSize <s junkPacketMinSize t
       \<or> MaxSegmentSize \<le>s MessageInitiationSize + initPacketJunkSize t
       \<or> MaxSegmentSize \<le>s MessageResponseSize + responsePacketJunkSize t
       \<or> \<not> distinct [(if 4 < initPacketMagicHeader t then initPacketMagicHeader t else 1),
                       (if 4 < responsePacketMagicHeader t then responsePacketMagicHeader t else 2),
                       (if 4 < underloadPacketMagicHeader t then underloadPacketMagicHeader t else 3),
                       (if 4 < transportPacketMagicHeader t then transportPacketMagicHeader t else 4)]
       \<or> MessageInitiationSize + initPacketJunkSize t
            = MessageResponseSize + responsePacketJunkSize t)"

section \<open>Notions of the specification\<close>

text \<open>
  The error kind \<^verbatim>\<open>ConfigInvalid\<close>: an \<^verbatim>\<open>IPCError\<close> tagged \<^verbatim>\<open>IpcErrorInvalid\<close>.
\<close>

definition isConfigInvalid :: "error option \<Rightarrow> bool" where
  "isConfigInvalid err = (case err of Some (IPCError IpcErrorInvalid m w) \<Rightarrow> True | _ \<Rightarrow> False)"

text \<open>
  Rule 6 of the specification: "if the supplied value > 4 accept it, else fall back to
  the canonical constant".
\<close>

definition spec_resolve_magic :: "uint32 \<Rightarrow> uint32 \<Rightarrow> uint32" where
  "spec_resolve_magic supplied canonical = (if 4 < supplied then supplied else canonical)"

text \<open>
  The validation rules 1 to 8 of the specification, on the submitted configuration and
  over the integers: some rule fails. Rule 2 adjusts the maximum; rule 3 asks
  \<open>max < MaxSegmentSize\<close> and \<open>max \<ge> min\<close>; rules 4 and 5 ask that the header size plus
  the junk size stay below \<open>MaxSegmentSize\<close>; rule 7 that the resolved headers differ;
  rule 8 that the two junk-adjusted sizes differ.
\<close>

definition spec_validation_fails :: "aSecConfType \<Rightarrow> bool" where
  "spec_validation_fails t =
     (let maxSize = (if 0 < sint (junkPacketCount t)
                        \<and> sint (junkPacketMaxSize t) = sint (junkPacketMinSize t)
                     then sint (junkPacketMaxSize t) + 1 else sint (junkPacketMaxSize t));
          newInitSize = sint MessageInitiationSize + sint (initPacketJunkSize t);
          newResponseSize = sint MessageResponseSize + sint (responsePacketJunkSize t)
      in \<not> 0 \<le> sint (junkPacketCount t)
       \<or> \<not> (maxSize < sint MaxSegmentSize \<and> sint (junkPacketMinSize t) \<le> maxSize)
       \<or> \<not> newInitSize < sint MaxSegmentSize
       \<or> \<not> newResponseSize < sint MaxSegmentSize
       \<or> \<not> distinct [spec_resolve_magic (initPacketMagicHeader t) 1,
                       spec_resolve_magic (responsePacketMagicHeader t) 2,
                       spec_resolve_magic (underloadPacketMagicHeader t) 3,
                       spec_resolve_magic (transportPacketMagicHeader t) 4]
       \<or> newInitSize = newResponseSize)"

text \<open>The error held by \<^verbatim>\<open>err\<close> is absent or of kind \<^verbatim>\<open>ConfigInvalid\<close>.\<close>

definition pc_ok :: "postConfig \<Rightarrow> bool" where
  "pc_ok s = (pc_err s = None \<or> isConfigInvalid (pc_err s))"

text \<open>The components of what \<^verbatim>\<open>handlePostConfig\<close> returns and leaves behind.\<close>

definition result_err :: "error option \<times> aSecConfType \<times> 'b Device \<times> Globals \<Rightarrow> error option" where
  "result_err r = fst r"

definition result_device :: "error option \<times> aSecConfType \<times> 'b Device \<times> Globals \<Rightarrow> 'b Device" where
  "result_device r = fst (snd (snd r))"

definition result_globals :: "error option \<times> aSecConfType \<times> 'b Device \<times> Globals \<Rightarrow> Globals" where
  "result_globals r = snd (snd (snd r))"

text \<open>
  "Both errors combined, Down error joined as the secondary cause": what the
  specification asks \<^verbatim>\<open>changeState\<close> to return when \<^verbatim>\<open>upLocked\<close> has failed with
  \<open>errUp\<close> and \<^verbatim>\<open>downLocked\<close> has returned \<open>errDown\<close>. An error value that carries both
  is a pair.
\<close>

datatype joined = Single error | Joined error error

definition spec_join_errors :: "error \<Rightarrow> error option \<Rightarrow> joined" where
  "spec_join_errors errUp errDown =
     (case errDown of None \<Rightarrow> Single errUp | Some e \<Rightarrow> Joined errUp e)"

section \<open>Example inputs\<close>

text \<open>
  A device as \<^verbatim>\<open>NewDevice\<close> leaves it, with two configured peers: down, a bind, port
  51820, no mark, a zero obfuscation configuration.
\<close>

definition example_peers :: "peer_ref \<Rightarrow> Peer" where
  "example_peers p =
     \<lparr>handshake_remoteStatic = (if p = 0 then 11 else 12),
      handshake_precomputedStaticStatic = 0,
      persistentKeepaliveInterval = (if p = 0 then 25 else 0)\<rparr>"

definition example_device :: "nat Device" where
  "example_device =
     \<lparr>state_state = deviceStateDown, net_bind = Some 0, net_netlinkCancel = False,
      net_port = 51820, net_fwmark = 0,
      staticIdentity_privateKey = 7, staticIdentity_publicKey = 8,
      peers_keyMap = [(11, 0), (12, 1)], peer_store = example_peers,
      rate_underLoadUntil = 0,
      allowedips = [([True, False], 0), ([False], 1), ([True, True], 0)],
      closed = False, dev_log = [], isASecOn = False,
      aSecConf = \<lparr>isSet = False, junkPacketCount = 0, junkPacketMinSize = 0,
                  junkPacketMaxSize = 0, initPacketJunkSize = 0, responsePacketJunkSize = 0,
                  initPacketMagicHeader = 0, responsePacketMagicHeader = 0,
                  underloadPacketMagicHeader = 0, transportPacketMagicHeader = 0\<rparr>,
      calls = []\<rparr>"

text \<open>The canonical tags and tables, for cookie replies of 64 bytes and transport headers of 32.\<close>

definition example_globals :: Globals where
  "example_globals =
     \<lparr>MessageInitiationType = 1, MessageResponseType = 2,
      MessageCookieReplyType = 3, MessageTransportType = 4,
      packetSizeToMsgType = [148 \<mapsto> 1, 92 \<mapsto> 2, 64 \<mapsto> 3, 32 \<mapsto> 4],
      msgTypeToJunkSize = [1 \<mapsto> 0, 2 \<mapsto> 0, 3 \<mapsto> 0, 4 \<mapsto> 0]\<rparr>"

text \<open>
  Scenario E4 of the specification: a configuration whose transport header repeats the
  init header, and one that is not set.
\<close>

definition example_conf :: aSecConfType where
  "example_conf =
     \<lparr>isSet = True, junkPacketCount = 0, junkPacketMinSize = 0, junkPacketMaxSize = 0,
      initPacketJunkSize = 16, responsePacketJunkSize = 16,
      initPacketMagicHeader = 5, responsePacketMagicHeader = 6,
      underloadPacketMagicHeader = 7, transportPacketMagicHeader = 5\<rparr>"

definition example_result :: "error option \<times> aSecConfType \<times> nat Device \<times> Globals" where
  "example_result = handlePostConfig 64 32 example_conf example_device example_globals"

text \<open>
  A bind whose first \<^verbatim>\<open>Close\<close> succeeds, whose \<^verbatim>\<open>Open\<close> fails and whose later
  \<^verbatim>\<open>Close\<close> fails; its state counts the calls made to it.
\<close>

definition example_bind :: "nat Bind" where
  "example_bind =
     \<lparr>Open = (\<lambda>b port. (b + 1, Inl (ExternalError ''open''))),
      Close = (\<lambda>b. (b + 1, if b = 0 then None else Some (ExternalError ''close''))),
      SetMark = (\<lambda>b mark. (b + 1, None)),
      BatchSize = (\<lambda>b. 128)\<rparr>"

text \<open>Toy stand-ins for the two Curve25519 operations.\<close>

definition example_noise :: Noise where
  "example_noise =
     \<lparr>publicKey = (\<lambda>sk. sk + 1),
      sharedSecret = (\<lambda>sk pk. (sk * pk, None))\<rparr>"

text \<open>A configuration whose only fault is that both junk-adjusted sizes are 148.\<close>

definition example_conf_sizes :: aSecConfType where
  "example_conf_sizes =
     \<lparr>isSet = True, junkPacketCount = 0, junkPacketMinSize = 0, junkPacketMaxSize = 0,
      initPacketJunkSize = 0, responsePacketJunkSize = 56,
      initPacketMagicHeader = 5, responsePacketMagicHeader = 6,
      underloadPacketMagicHeader = 7, transportPacketMagicHeader = 8\<rparr>"

definition example_result_sizes :: "error option \<times> aSecConfType \<times> nat Device \<times> Globals" where
  "example_result_sizes = handlePostConfig 64 32 example_conf_sizes example_device example_globals"

text \<open>The example device after \<^verbatim>\<open>upLocked\<close> has failed on it.\<close>

definition example_up_failed :: "nat Device" where
  "example_up_failed =
     (case upLocked example_bind (example_device\<lparr>state_state := deviceStateUp\<rparr>) of
        Some (err, d1) \<Rightarrow> d1
      | None \<Rightarrow> example_device)"

text \<open>The example device once closed.\<close>

definition example_closed :: "nat Device" where
  "example_closed = example_device\<lparr>state_state := deviceStateClosed, closed := True\<rparr>"

text \<open>The example device after its private key has been set to 10.\<close>

definition example_rotated :: "nat Device" where
  "example_rotated = snd (SetPrivateKey example_noise 10 example_device)"

text \<open>
  A configuration whose init junk size is the largest \<^verbatim>\<open>int\<close>: 148 more does not fit
  in 64 bits.
\<close>

definition example_conf_wrap :: aSecConfType where
  "example_conf_wrap =
     \<lparr>isSet = True, junkPacketCount = 0, junkPacketMinSize = 0, junkPacketMaxSize = 0,
      initPacketJunkSize = 9223372036854775807, responsePacketJunkSize = 0,
      initPacketMagicHeader = 5, responsePacketMagicHeader = 6,
      underloadPacketMagicHeader = 7, transportPacketMagicHeader = 8\<rparr>"

section \<open>Properties of the obfuscation configuration\<close>

lemma isConfigInvalid_chained [simp]: "isConfigInvalid (ipcErrorf_chained m e)"
  by (simp add: isConfigInvalid_def ipcErrorf_chained_def split: option.splits)

lemma isConfigInvalid_simps [simp]:
  "isConfigInvalid (Some (IPCError IpcErrorInvalid m w))"
  "\<not> isConfigInvalid None"
  by (simp_all add: isConfigInvalid_def)

lemma chained_not_None [simp]: "ipcErrorf_chained m e \<noteq> None"
  by (simp add: ipcErrorf_chained_def split: option.splits)

lemma isSameMap_len_distinct:
  "isSameMap_len g = 4 \<longleftrightarrow>
     distinct [MessageInitiationType g, MessageResponseType g,
               MessageCookieReplyType g, MessageTransportType g]"
proof -
  let ?xs = "[MessageInitiationType g, MessageResponseType g,
               MessageCookieReplyType g, MessageTransportType g]"
  have "length ?xs = 4" by simp
  then have "isSameMap_len g = 4 \<longleftrightarrow> length (remdups ?xs) = length ?xs"
    unfolding isSameMap_len_def by presburger
  also have "\<dots> \<longleftrightarrow> distinct ?xs"
    by (simp only: length_remdups_eq remdups_id_iff_distinct)
  finally show ?thesis .
qed


lemmas hpc_step_defs = hpc_junkPacketCount_def hpc_junkPacketMinSize_def hpc_adjustMaxSize_def hpc_junkPacketMaxSize_def hpc_initPacketJunkSize_def hpc_responsePacketJunkSize_def hpc_initPacketMagicHeader_def hpc_responsePacketMagicHeader_def hpc_underloadPacketMagicHeader_def hpc_transportPacketMagicHeader_def hpc_magicHeadersDiffer_def

lemma hpc_temp [simp]:
  "pc_temp (hpc_junkPacketCount s) = pc_temp s"
  "pc_temp (hpc_junkPacketMinSize s) = pc_temp s"
  "pc_temp (hpc_junkPacketMaxSize s) = pc_temp s"
  "pc_temp (hpc_initPacketJunkSize s) = pc_temp s"
  "pc_temp (hpc_responsePacketJunkSize s) = pc_temp s"
  "pc_temp (hpc_initPacketMagicHeader s) = pc_temp s"
  "pc_temp (hpc_responsePacketMagicHeader s) = pc_temp s"
  "pc_temp (hpc_underloadPacketMagicHeader s) = pc_temp s"
  "pc_temp (hpc_transportPacketMagicHeader s) = pc_temp s"
  "pc_temp (hpc_magicHeadersDiffer s) = pc_temp s"
  "pc_temp (hpc_dispatchTables c1 c2 s) = pc_temp s"
  by (simp_all add: hpc_step_defs hpc_dispatchTables_def Let_def)

lemma hpc_adjustMaxSize_temp:
  "pc_temp (hpc_adjustMaxSize s) =
     (pc_temp s)\<lparr>junkPacketMaxSize :=
        (if 0 <s junkPacketCount (pc_conf s) \<and>
            junkPacketMaxSize (pc_temp s) = junkPacketMinSize (pc_temp s)
         then junkPacketMaxSize (pc_temp s) + 1 else junkPacketMaxSize (pc_temp s))\<rparr>"
  by (simp add: hpc_adjustMaxSize_def)

lemma hpc_adjustMaxSize_frame [simp]:
  "pc_err (hpc_adjustMaxSize s) = pc_err s"
  "pc_conf (hpc_adjustMaxSize s) = pc_conf s"
  "pc_globals (hpc_adjustMaxSize s) = pc_globals s"
  by (simp_all add: hpc_adjustMaxSize_def)

lemma hpc_globals [simp]:
  "pc_globals (hpc_junkPacketCount s) = pc_globals s"
  "pc_globals (hpc_junkPacketMinSize s) = pc_globals s"
  "pc_globals (hpc_junkPacketMaxSize s) = pc_globals s"
  "pc_globals (hpc_initPacketJunkSize s) = pc_globals s"
  "pc_globals (hpc_responsePacketJunkSize s) = pc_globals s"
  "pc_globals (hpc_magicHeadersDiffer s) = pc_globals s"
  by (simp_all add: hpc_step_defs Let_def)

lemma hpc_err_frame [simp]:
  "pc_err (hpc_junkPacketMinSize s) = pc_err s"
  "pc_err (hpc_initPacketMagicHeader s) = pc_err s"
  "pc_err (hpc_responsePacketMagicHeader s) = pc_err s"
  "pc_err (hpc_underloadPacketMagicHeader s) = pc_err s"
  "pc_err (hpc_transportPacketMagicHeader s) = pc_err s"
  by (simp_all add: hpc_step_defs Let_def)

lemma hpc_conf_frame [simp]:
  "pc_conf (hpc_magicHeadersDiffer s) = pc_conf s"
  "pc_conf (hpc_dispatchTables c1 c2 s) = pc_conf s"
  by (simp_all add: hpc_step_defs hpc_dispatchTables_def Let_def)

lemma hpc_err_None:
  "pc_err (hpc_junkPacketCount s) = None \<longleftrightarrow>
     pc_err s = None \<and> \<not> junkPacketCount (pc_temp s) <s 0"
  "pc_err (hpc_junkPacketMaxSize s) = None \<longleftrightarrow>
     pc_err s = None \<and> \<not> MaxSegmentSize \<le>s junkPacketMaxSize (pc_temp s)
       \<and> \<not> junkPacketMaxSize (pc_temp s) <s junkPacketMinSize (pc_temp s)"
  "pc_err (hpc_initPacketJunkSize s) = None \<longleftrightarrow>
     pc_err s = None \<and> \<not> MaxSegmentSize \<le>s MessageInitiationSize + initPacketJunkSize (pc_temp s)"
  "pc_err (hpc_responsePacketJunkSize s) = None \<longleftrightarrow>
     pc_err s = None \<and> \<not> MaxSegmentSize \<le>s MessageResponseSize + responsePacketJunkSize (pc_temp s)"
  "pc_err (hpc_magicHeadersDiffer s) = None \<longleftrightarrow>
     pc_err s = None \<and> isSameMap_len (pc_globals s) = 4"
  "pc_err (hpc_dispatchTables c1 c2 s) = None \<longleftrightarrow>
     pc_err s = None \<and> MessageInitiationSize + initPacketJunkSize (pc_conf s)
        \<noteq> MessageResponseSize + responsePacketJunkSize (pc_conf s)"
  by (auto simp add: hpc_step_defs hpc_dispatchTables_def Let_def)

lemma hpc_ok [simp]:
  "pc_ok s \<Longrightarrow> pc_ok (hpc_junkPacketCount s)"
  "pc_ok s \<Longrightarrow> pc_ok (hpc_junkPacketMinSize s)"
  "pc_ok s \<Longrightarrow> pc_ok (hpc_adjustMaxSize s)"
  "pc_ok s \<Longrightarrow> pc_ok (hpc_junkPacketMaxSize s)"
  "pc_ok s \<Longrightarrow> pc_ok (hpc_initPacketJunkSize s)"
  "pc_ok s \<Longrightarrow> pc_ok (hpc_responsePacketJunkSize s)"
  "pc_ok s \<Longrightarrow> pc_ok (hpc_initPacketMagicHeader s)"
  "pc_ok s \<Longrightarrow> pc_ok (hpc_responsePacketMagicHeader s)"
  "pc_ok s \<Longrightarrow> pc_ok (hpc_underloadPacketMagicHeader s)"
  "pc_ok s \<Longrightarrow> pc_ok (hpc_transportPacketMagicHeader s)"
  "pc_ok s \<Longrightarrow> pc_ok (hpc_magicHeadersDiffer s)"
  "pc_ok s \<Longrightarrow> pc_ok (hpc_dispatchTables c1 c2 s)"
  by (auto simp add: pc_ok_def hpc_step_defs hpc_dispatchTables_def Let_def)

lemma hpc_body_ok: "pc_ok s \<Longrightarrow> pc_ok (hpc_body c1 c2 s)"
  by (simp add: hpc_body_def)

text \<open>The tags after the four resolution blocks.\<close>

lemma hpc_tags [simp]:
  "MessageInitiationType (pc_globals (hpc_initPacketMagicHeader s)) =
     spec_resolve_magic (initPacketMagicHeader (pc_temp s)) 1"
  "MessageInitiationType (pc_globals (hpc_responsePacketMagicHeader s)) = MessageInitiationType (pc_globals s)"
  "MessageInitiationType (pc_globals (hpc_underloadPacketMagicHeader s)) = MessageInitiationType (pc_globals s)"
  "MessageInitiationType (pc_globals (hpc_transportPacketMagicHeader s)) = MessageInitiationType (pc_globals s)"
  "MessageResponseType (pc_globals (hpc_responsePacketMagicHeader s)) =
     spec_resolve_magic (responsePacketMagicHeader (pc_temp s)) 2"
  "MessageResponseType (pc_globals (hpc_underloadPacketMagicHeader s)) = MessageResponseType (pc_globals s)"
  "MessageResponseType (pc_globals (hpc_transportPacketMagicHeader s)) = MessageResponseType (pc_globals s)"
  "MessageCookieReplyType (pc_globals (hpc_underloadPacketMagicHeader s)) =
     spec_resolve_magic (underloadPacketMagicHeader (pc_temp s)) 3"
  "MessageCookieReplyType (pc_globals (hpc_transportPacketMagicHeader s)) = MessageCookieReplyType (pc_globals s)"
  "MessageTransportType (pc_globals (hpc_transportPacketMagicHeader s)) =
     spec_resolve_magic (transportPacketMagicHeader (pc_temp s)) 4"
  by (simp_all add: hpc_step_defs Let_def spec_resolve_magic_def)

lemma hpc_dispatchTables_tags [simp]:
  "MessageInitiationType (pc_globals (hpc_dispatchTables c1 c2 s)) = MessageInitiationType (pc_globals s)"
  "MessageResponseType (pc_globals (hpc_dispatchTables c1 c2 s)) = MessageResponseType (pc_globals s)"
  "MessageCookieReplyType (pc_globals (hpc_dispatchTables c1 c2 s)) = MessageCookieReplyType (pc_globals s)"
  "MessageTransportType (pc_globals (hpc_dispatchTables c1 c2 s)) = MessageTransportType (pc_globals s)"
  by (simp_all add: hpc_dispatchTables_def Let_def)

lemma hpc_tables_frame [simp]:
  "packetSizeToMsgType (pc_globals (hpc_initPacketMagicHeader s)) = packetSizeToMsgType (pc_globals s)"
  "packetSizeToMsgType (pc_globals (hpc_responsePacketMagicHeader s)) = packetSizeToMsgType (pc_globals s)"
  "packetSizeToMsgType (pc_globals (hpc_underloadPacketMagicHeader s)) = packetSizeToMsgType (pc_globals s)"
  "packetSizeToMsgType (pc_globals (hpc_transportPacketMagicHeader s)) = packetSizeToMsgType (pc_globals s)"
  "msgTypeToJunkSize (pc_globals (hpc_initPacketMagicHeader s)) = msgTypeToJunkSize (pc_globals s)"
  "msgTypeToJunkSize (pc_globals (hpc_responsePacketMagicHeader s)) = msgTypeToJunkSize (pc_globals s)"
  "msgTypeToJunkSize (pc_globals (hpc_underloadPacketMagicHeader s)) = msgTypeToJunkSize (pc_globals s)"
  "msgTypeToJunkSize (pc_globals (hpc_transportPacketMagicHeader s)) = msgTypeToJunkSize (pc_globals s)"
  by (simp_all add: hpc_step_defs Let_def)

lemma hpc_dispatchTables_equal_sizes:
  "MessageInitiationSize + initPacketJunkSize (pc_conf s)
     = MessageResponseSize + responsePacketJunkSize (pc_conf s) \<Longrightarrow>
   pc_globals (hpc_dispatchTables c1 c2 s) = pc_globals s"
  by (simp add: hpc_dispatchTables_def Let_def)


lemma hpc_junk_conf [simp]:
  "junkPacketCount (pc_conf (hpc_junkPacketCount s)) = junkPacketCount (pc_temp s)"
  "junkPacketCount (pc_conf (hpc_junkPacketMinSize s)) = junkPacketCount (pc_conf s)"
  "initPacketJunkSize (pc_conf (hpc_initPacketJunkSize s)) =
     (if MaxSegmentSize \<le>s MessageInitiationSize + initPacketJunkSize (pc_temp s)
      then initPacketJunkSize (pc_conf s) else initPacketJunkSize (pc_temp s))"
  "initPacketJunkSize (pc_conf (hpc_responsePacketJunkSize s)) = initPacketJunkSize (pc_conf s)"
  "initPacketJunkSize (pc_conf (hpc_initPacketMagicHeader s)) = initPacketJunkSize (pc_conf s)"
  "initPacketJunkSize (pc_conf (hpc_responsePacketMagicHeader s)) = initPacketJunkSize (pc_conf s)"
  "initPacketJunkSize (pc_conf (hpc_underloadPacketMagicHeader s)) = initPacketJunkSize (pc_conf s)"
  "initPacketJunkSize (pc_conf (hpc_transportPacketMagicHeader s)) = initPacketJunkSize (pc_conf s)"
  "responsePacketJunkSize (pc_conf (hpc_responsePacketJunkSize s)) =
     (if MaxSegmentSize \<le>s MessageResponseSize + responsePacketJunkSize (pc_temp s)
      then responsePacketJunkSize (pc_conf s) else responsePacketJunkSize (pc_temp s))"
  "responsePacketJunkSize (pc_conf (hpc_initPacketMagicHeader s)) = responsePacketJunkSize (pc_conf s)"
  "responsePacketJunkSize (pc_conf (hpc_responsePacketMagicHeader s)) = responsePacketJunkSize (pc_conf s)"
  "responsePacketJunkSize (pc_conf (hpc_underloadPacketMagicHeader s)) = responsePacketJunkSize (pc_conf s)"
  "responsePacketJunkSize (pc_conf (hpc_transportPacketMagicHeader s)) = responsePacketJunkSize (pc_conf s)"
  by (simp_all add: hpc_step_defs Let_def)

lemma hpc_body_tags:
  "MessageInitiationType (pc_globals (hpc_body c1 c2 s)) = spec_resolve_magic (initPacketMagicHeader (pc_temp s)) 1"
  "MessageResponseType (pc_globals (hpc_body c1 c2 s)) = spec_resolve_magic (responsePacketMagicHeader (pc_temp s)) 2"
  "MessageCookieReplyType (pc_globals (hpc_body c1 c2 s)) = spec_resolve_magic (underloadPacketMagicHeader (pc_temp s)) 3"
  "MessageTransportType (pc_globals (hpc_body c1 c2 s)) = spec_resolve_magic (transportPacketMagicHeader (pc_temp s)) 4"
  by (simp_all add: hpc_body_def hpc_adjustMaxSize_temp)

lemma hpc_body_same_tags_err:
  assumes "\<not> distinct [spec_resolve_magic (initPacketMagicHeader (pc_temp s)) 1,
                       spec_resolve_magic (responsePacketMagicHeader (pc_temp s)) 2,
                       spec_resolve_magic (underloadPacketMagicHeader (pc_temp s)) 3,
                       spec_resolve_magic (transportPacketMagicHeader (pc_temp s)) 4]"
  shows "pc_err (hpc_body c1 c2 s) \<noteq> None"
proof -
  let ?s = "hpc_transportPacketMagicHeader (hpc_underloadPacketMagicHeader
      (hpc_responsePacketMagicHeader (hpc_initPacketMagicHeader (hpc_responsePacketJunkSize
      (hpc_initPacketJunkSize (hpc_junkPacketMaxSize (hpc_adjustMaxSize
      (hpc_junkPacketMinSize (hpc_junkPacketCount s)))))))))"
  have "isSameMap_len (pc_globals ?s) \<noteq> 4"
    using assms by (simp add: isSameMap_len_distinct hpc_adjustMaxSize_temp)
  then have "pc_err (hpc_magicHeadersDiffer ?s) \<noteq> None"
    by (simp add: hpc_err_None)
  then show ?thesis
    by (simp add: hpc_body_def hpc_err_None(6))
qed

lemma hpc_body_err_None:
  assumes "pc_err s = None"
  shows "pc_err (hpc_body c1 c2 s) = None \<longleftrightarrow> \<not> checks_fail (pc_temp s)"
  using assms
  by (auto simp add: hpc_body_def hpc_err_None checks_fail_def spec_resolve_magic_def Let_def
        hpc_adjustMaxSize_temp isSameMap_len_distinct)

lemma hpc_body_tables:
  assumes "MessageInitiationSize + initPacketJunkSize (pc_conf (hpc_body c1 c2 s))
             = MessageResponseSize + responsePacketJunkSize (pc_conf (hpc_body c1 c2 s))"
  shows "packetSizeToMsgType (pc_globals (hpc_body c1 c2 s)) = packetSizeToMsgType (pc_globals s)"
    and "msgTypeToJunkSize (pc_globals (hpc_body c1 c2 s)) = msgTypeToJunkSize (pc_globals s)"
  using assms by (simp_all add: hpc_body_def hpc_dispatchTables_equal_sizes)


lemma hpc_entry_simps [simp]:
  "pc_err (hpc_entry t d g) = None"
  "pc_temp (hpc_entry t d g) = t"
  "pc_conf (hpc_entry t d g) = aSecConf d"
  "pc_globals (hpc_entry t d g) = g"
  by (simp_all add: hpc_entry_def)

lemma handlePostConfig_result:
  assumes "isSet t"
  shows "result_err (handlePostConfig c1 c2 t d g) = pc_err (hpc_body c1 c2 (hpc_entry t d g))"
    and "result_globals (handlePostConfig c1 c2 t d g) = pc_globals (hpc_body c1 c2 (hpc_entry t d g))"
    and "aSecConf (result_device (handlePostConfig c1 c2 t d g)) = pc_conf (hpc_body c1 c2 (hpc_entry t d g))"
  using assms
  by (simp_all add: handlePostConfig_def result_globals_def result_err_def
        result_device_def Let_def)

lemma hpc_dispatchTables_tables:
  "packetSizeToMsgType (pc_globals (hpc_dispatchTables c1 c2 s)) =
     (if MessageInitiationSize + initPacketJunkSize (pc_conf s)
           = MessageResponseSize + responsePacketJunkSize (pc_conf s)
      then packetSizeToMsgType (pc_globals s)
      else Map.empty(MessageInitiationSize + initPacketJunkSize (pc_conf s)
                       \<mapsto> MessageInitiationType (pc_globals s),
                     MessageResponseSize + responsePacketJunkSize (pc_conf s)
                       \<mapsto> MessageResponseType (pc_globals s),
                     c1 \<mapsto> MessageCookieReplyType (pc_globals s),
                     c2 \<mapsto> MessageTransportType (pc_globals s)))"
  "msgTypeToJunkSize (pc_globals (hpc_dispatchTables c1 c2 s)) =
     (if MessageInitiationSize + initPacketJunkSize (pc_conf s)
           = MessageResponseSize + responsePacketJunkSize (pc_conf s)
      then msgTypeToJunkSize (pc_globals s)
      else Map.empty(MessageInitiationType (pc_globals s) \<mapsto> initPacketJunkSize (pc_conf s),
                     MessageResponseType (pc_globals s) \<mapsto> responsePacketJunkSize (pc_conf s),
                     MessageCookieReplyType (pc_globals s) \<mapsto> 0,
                     MessageTransportType (pc_globals s) \<mapsto> 0))"
  by (simp_all add: hpc_dispatchTables_def Let_def)

lemma hpc_junk_conf_early [simp]:
  "initPacketJunkSize (pc_conf (hpc_junkPacketCount s)) = initPacketJunkSize (pc_conf s)"
  "initPacketJunkSize (pc_conf (hpc_junkPacketMinSize s)) = initPacketJunkSize (pc_conf s)"
  "initPacketJunkSize (pc_conf (hpc_junkPacketMaxSize s)) = initPacketJunkSize (pc_conf s)"
  "responsePacketJunkSize (pc_conf (hpc_junkPacketCount s)) = responsePacketJunkSize (pc_conf s)"
  "responsePacketJunkSize (pc_conf (hpc_junkPacketMinSize s)) = responsePacketJunkSize (pc_conf s)"
  "responsePacketJunkSize (pc_conf (hpc_junkPacketMaxSize s)) = responsePacketJunkSize (pc_conf s)"
  "responsePacketJunkSize (pc_conf (hpc_initPacketJunkSize s)) = responsePacketJunkSize (pc_conf s)"
  by (simp_all add: hpc_step_defs Let_def)

lemma hpc_body_junk_conf:
  "initPacketJunkSize (pc_conf (hpc_body c1 c2 s)) =
     (if MaxSegmentSize \<le>s MessageInitiationSize + initPacketJunkSize (pc_temp s)
      then initPacketJunkSize (pc_conf s) else initPacketJunkSize (pc_temp s))"
  "responsePacketJunkSize (pc_conf (hpc_body c1 c2 s)) =
     (if MaxSegmentSize \<le>s MessageResponseSize + responsePacketJunkSize (pc_temp s)
      then responsePacketJunkSize (pc_conf s) else responsePacketJunkSize (pc_temp s))"
  by (simp_all add: hpc_body_def hpc_adjustMaxSize_temp)

subsection \<open>A configuration that is not set\<close>

text \<open>
  C10: for every \<^verbatim>\<open>aSecConfType\<close> whose \<^verbatim>\<open>isSet\<close> flag is false, \<^verbatim>\<open>handlePostConfig\<close>
  returns nil and changes nothing: the device (its \<^verbatim>\<open>aSecConf\<close> and \<^verbatim>\<open>isASecOn\<close>
  included), the message-type tags and the two dispatch tables are as before, and so is
  the submitted configuration.
\<close>
theorem handlePostConfig_not_set:
  "\<not> isSet tempASecConf \<Longrightarrow>
   handlePostConfig c1 c2 tempASecConf device globals = (None, tempASecConf, device, globals)"
  by (simp add: handlePostConfig_def)

text \<open>The example configuration with its flag cleared is left alone.\<close>

theorem handlePostConfig_not_set_witness:
  "\<not> isSet (example_conf\<lparr>isSet := False\<rparr>) \<and>
   handlePostConfig 64 32 (example_conf\<lparr>isSet := False\<rparr>) example_device example_globals
     = (None, example_conf\<lparr>isSet := False\<rparr>, example_device, example_globals)"
  using handlePostConfig_not_set [of "example_conf\<lparr>isSet := False\<rparr>" 64 32 example_device example_globals]
  by simp

subsection \<open>Resolution of the magic headers\<close>

text \<open>
  C5: for every \<^verbatim>\<open>aSecConfType\<close> with \<^verbatim>\<open>isSet\<close> true, \<^verbatim>\<open>handlePostConfig\<close> leaves in
  each of the four message-type tags the supplied value when that is strictly greater
  than 4 and the canonical constant (1, 2, 3, 4) otherwise; and if the four resolved
  values are not pairwise distinct, it returns a \<^verbatim>\<open>ConfigInvalid\<close> error.
\<close>
theorem handlePostConfig_magic_headers:
  assumes "isSet t"
  shows "MessageInitiationType (result_globals (handlePostConfig c1 c2 t d g))
           = spec_resolve_magic (initPacketMagicHeader t) 1
       \<and> MessageResponseType (result_globals (handlePostConfig c1 c2 t d g))
           = spec_resolve_magic (responsePacketMagicHeader t) 2
       \<and> MessageCookieReplyType (result_globals (handlePostConfig c1 c2 t d g))
           = spec_resolve_magic (underloadPacketMagicHeader t) 3
       \<and> MessageTransportType (result_globals (handlePostConfig c1 c2 t d g))
           = spec_resolve_magic (transportPacketMagicHeader t) 4
       \<and> (\<not> distinct [spec_resolve_magic (initPacketMagicHeader t) 1,
                        spec_resolve_magic (responsePacketMagicHeader t) 2,
                        spec_resolve_magic (underloadPacketMagicHeader t) 3,
                        spec_resolve_magic (transportPacketMagicHeader t) 4]
            \<longrightarrow> isConfigInvalid (result_err (handlePostConfig c1 c2 t d g)))"
proof -
  let ?s = "hpc_body c1 c2 (hpc_entry t d g)"
  have g: "result_globals (handlePostConfig c1 c2 t d g) = pc_globals ?s"
    and e: "result_err (handlePostConfig c1 c2 t d g) = pc_err ?s"
    using assms by (simp_all add: handlePostConfig_result)
  have ok: "pc_ok ?s"
    by (rule hpc_body_ok) (simp add: pc_ok_def)
  have "isConfigInvalid (pc_err ?s)"
    if "\<not> distinct [spec_resolve_magic (initPacketMagicHeader t) 1,
                        spec_resolve_magic (responsePacketMagicHeader t) 2,
                        spec_resolve_magic (underloadPacketMagicHeader t) 3,
                        spec_resolve_magic (transportPacketMagicHeader t) 4]"
  proof -
    have "pc_err ?s \<noteq> None"
      by (rule hpc_body_same_tags_err) (use that in simp)
    with ok show ?thesis by (simp add: pc_ok_def)
  qed
  then show ?thesis
    by (simp only: g e hpc_body_tags) simp
qed

text \<open>
  The example configuration resolves to the tags 5, 6, 7, 5, which collide, and is
  rejected.
\<close>

theorem handlePostConfig_magic_headers_witness:
  "isSet example_conf
   \<and> MessageInitiationType (result_globals example_result) = 5
   \<and> MessageResponseType (result_globals example_result) = 6
   \<and> MessageCookieReplyType (result_globals example_result) = 7
   \<and> MessageTransportType (result_globals example_result) = 5
   \<and> isConfigInvalid (result_err example_result)"
  using handlePostConfig_magic_headers [of example_conf 64 32 example_device example_globals]
  by (simp add: example_conf_def example_result_def spec_resolve_magic_def)

subsection \<open>What a rejected configuration leaves behind\<close>

text \<open>The signed value of a sum that stays in range, and of the successor.\<close>

lemma sint_consts [simp]:
  "sint MaxSegmentSize = 65535"
  "sint MessageInitiationSize = 148"
  "sint MessageResponseSize = 92"
  by (simp_all add: MaxSegmentSize_def MessageInitiationSize_def MessageResponseSize_def)

lemma sint_add_in_range:
  fixes a b :: go_int
  assumes "sint a + sint b < 2 ^ 63" and "- (2 ^ 63) \<le> sint a + sint b"
  shows "sint (a + b) = sint a + sint b"
proof -
  have "sint (a + b) = signed_take_bit 63 (sint a + sint b)"
    by (simp add: sint_word_ariths)
  also have "\<dots> = sint a + sint b"
    using assms by (simp add: signed_take_bit_int_eq_self)
  finally show ?thesis .
qed

lemma sint_header_plus_junk:
  fixes x :: go_int
  assumes "sint MessageInitiationSize + sint x < 2 ^ 63"
  shows "sint (MessageInitiationSize + x) = sint MessageInitiationSize + sint x"
proof (rule sint_add_in_range [OF assms])
  have "- (2 ^ 63) \<le> sint x" using sint_ge [of x] by simp
  then show "- (2 ^ 63) \<le> sint MessageInitiationSize + sint x" by simp
qed

lemma sint_response_plus_junk:
  fixes x :: go_int
  assumes "sint MessageResponseSize + sint x < 2 ^ 63"
  shows "sint (MessageResponseSize + x) = sint MessageResponseSize + sint x"
proof (rule sint_add_in_range [OF assms])
  have "- (2 ^ 63) \<le> sint x" using sint_ge [of x] by simp
  then show "- (2 ^ 63) \<le> sint MessageResponseSize + sint x" by simp
qed


lemma sint_inject: "sint (a :: go_int) = sint b \<Longrightarrow> a = b"
  by (rule signed_word_eqI)

lemma sint_succ_cases:
  fixes x :: go_int
  shows "sint (x + 1) = sint x + 1 \<or> (sint x = 2 ^ 63 - 1 \<and> sint (x + 1) = - (2 ^ 63))"
proof (cases "sint x + 1 < 2 ^ 63")
  case True
  have "- (2 ^ 63) \<le> sint x + sint (1 :: go_int)"
    using sint_ge [of x] by simp
  with True have "sint (x + 1) = sint x + sint (1 :: go_int)"
    by (intro sint_add_in_range) simp_all
  then show ?thesis by simp
next
  case False
  with sint_lt [of x] have m: "sint x = 2 ^ 63 - 1" by simp
  have "sint (x + 1) = signed_take_bit 63 (sint x + sint (1 :: go_int))"
    by (simp add: sint_word_ariths)
  also have "\<dots> = signed_take_bit 63 (2 ^ 63 :: int)"
    by (simp add: m)
  also have "\<dots> = - (2 ^ 63)"
    by (simp add: signed_take_bit_eq_take_bit_minus take_bit_eq_mod bit_simps)
  finally show ?thesis using m by simp
qed

lemma rule3_checked:
  fixes count mn mx :: go_int
  assumes "let maxSize = (if 0 < sint count \<and> sint mx = sint mn then sint mx + 1 else sint mx)
           in \<not> (maxSize < sint MaxSegmentSize \<and> sint mn \<le> maxSize)"
  shows "let maxSize = (if 0 <s count \<and> mx = mn then mx + 1 else mx)
         in MaxSegmentSize \<le>s maxSize \<or> maxSize <s mn"
proof (cases "0 < sint count \<and> sint mx = sint mn")
  case True
  then have eq: "mx = mn" and c: "0 <s count"
    by (auto simp add: word_sless_alt intro: sint_inject)
  from sint_succ_cases [of mx] show ?thesis
  proof
    assume "sint (mx + 1) = sint mx + 1"
    with assms True show ?thesis
      by (auto simp add: eq c word_sle_eq word_sless_alt Let_def)
  next
    assume "sint mx = 2 ^ 63 - 1 \<and> sint (mx + 1) = - (2 ^ 63)"
    with True show ?thesis
      by (simp add: eq word_sless_alt Let_def)
  qed
next
  case False
  then have "\<not> (0 <s count \<and> mx = mn)"
    by (auto simp add: word_sless_alt)
  with assms False show ?thesis
    by (auto simp add: word_sle_eq word_sless_alt Let_def)
qed

lemma spec_fails_checks_fail:
  assumes r1: "sint MessageInitiationSize + sint (initPacketJunkSize t) < 2 ^ 63"
      and r2: "sint MessageResponseSize + sint (responsePacketJunkSize t) < 2 ^ 63"
      and f: "spec_validation_fails t"
  shows "checks_fail t"
proof -
  note i = sint_header_plus_junk [OF r1] and r = sint_response_plus_junk [OF r2]
  have count: "junkPacketCount t <s 0" if "\<not> 0 \<le> sint (junkPacketCount t)"
    using that by (simp add: word_sless_alt)
  have four: "MaxSegmentSize \<le>s MessageInitiationSize + initPacketJunkSize t"
    if "\<not> sint MessageInitiationSize + sint (initPacketJunkSize t) < sint MaxSegmentSize"
    using that by (simp add: word_sle_eq i)
  have five: "MaxSegmentSize \<le>s MessageResponseSize + responsePacketJunkSize t"
    if "\<not> sint MessageResponseSize + sint (responsePacketJunkSize t) < sint MaxSegmentSize"
    using that by (simp add: word_sle_eq r)
  have eight: "MessageInitiationSize + initPacketJunkSize t
        = MessageResponseSize + responsePacketJunkSize t"
    if "sint MessageInitiationSize + sint (initPacketJunkSize t)
          = sint MessageResponseSize + sint (responsePacketJunkSize t)"
    using that i r by (intro sint_inject) simp
  from f consider
      "\<not> 0 \<le> sint (junkPacketCount t)"
    | "let maxSize = (if 0 < sint (junkPacketCount t)
                        \<and> sint (junkPacketMaxSize t) = sint (junkPacketMinSize t)
                     then sint (junkPacketMaxSize t) + 1 else sint (junkPacketMaxSize t))
       in \<not> (maxSize < sint MaxSegmentSize \<and> sint (junkPacketMinSize t) \<le> maxSize)"
    | "\<not> sint MessageInitiationSize + sint (initPacketJunkSize t) < sint MaxSegmentSize"
    | "\<not> sint MessageResponseSize + sint (responsePacketJunkSize t) < sint MaxSegmentSize"
    | "\<not> distinct [spec_resolve_magic (initPacketMagicHeader t) 1,
                       spec_resolve_magic (responsePacketMagicHeader t) 2,
                       spec_resolve_magic (underloadPacketMagicHeader t) 3,
                       spec_resolve_magic (transportPacketMagicHeader t) 4]"
    | "sint MessageInitiationSize + sint (initPacketJunkSize t)
          = sint MessageResponseSize + sint (responsePacketJunkSize t)"
    unfolding spec_validation_fails_def Let_def by blast
  then show ?thesis
  proof cases
    case 1
    from count [OF 1] show ?thesis by (simp add: checks_fail_def Let_def)
  next
    case 2
    from rule3_checked [OF 2] show ?thesis
      unfolding checks_fail_def Let_def by blast
  next
    case 3
    from four [OF 3] show ?thesis by (simp add: checks_fail_def Let_def)
  next
    case 4
    from five [OF 4] show ?thesis by (simp add: checks_fail_def Let_def)
  next
    case 5
    then show ?thesis
      unfolding checks_fail_def Let_def spec_resolve_magic_def by blast
  next
    case 6
    from eight [OF 6] show ?thesis by (simp add: checks_fail_def Let_def)
  qed
qed


text \<open>
  C1, as the code has it: for every \<^verbatim>\<open>aSecConfType\<close> with \<^verbatim>\<open>isSet\<close> true whose junk
  sizes are small enough that \<open>148 + initPacketJunkSize\<close> and
  \<open>92 + responsePacketJunkSize\<close> do not overflow the 64-bit \<^verbatim>\<open>int\<close>: if any validation
  rule fails, \<^verbatim>\<open>handlePostConfig\<close> returns a \<^verbatim>\<open>ConfigInvalid\<close> error; and if the
  submitted junk sizes satisfy rules 4 and 5 and make the junk-adjusted init size equal
  to the junk-adjusted response size, the dispatch tables \<^verbatim>\<open>packetSizeToMsgType\<close> and
  \<^verbatim>\<open>msgTypeToJunkSize\<close> keep their prior values.
\<close>

theorem handlePostConfig_validation:
  assumes "isSet t"
    and "sint MessageInitiationSize + sint (initPacketJunkSize t) < 2 ^ 63"
    and "sint MessageResponseSize + sint (responsePacketJunkSize t) < 2 ^ 63"
  shows "(spec_validation_fails t
            \<longrightarrow> isConfigInvalid (result_err (handlePostConfig c1 c2 t d g)))
       \<and> (sint MessageInitiationSize + sint (initPacketJunkSize t) < sint MaxSegmentSize
          \<and> sint MessageResponseSize + sint (responsePacketJunkSize t) < sint MaxSegmentSize
          \<and> sint MessageInitiationSize + sint (initPacketJunkSize t)
              = sint MessageResponseSize + sint (responsePacketJunkSize t)
          \<longrightarrow> packetSizeToMsgType (result_globals (handlePostConfig c1 c2 t d g))
                = packetSizeToMsgType g
            \<and> msgTypeToJunkSize (result_globals (handlePostConfig c1 c2 t d g))
                = msgTypeToJunkSize g)"
proof -
  let ?s = "hpc_body c1 c2 (hpc_entry t d g)"
  note i = sint_header_plus_junk [OF assms(2)] and r = sint_response_plus_junk [OF assms(3)]
  have g: "result_globals (handlePostConfig c1 c2 t d g) = pc_globals ?s"
    and e: "result_err (handlePostConfig c1 c2 t d g) = pc_err ?s"
    using assms(1) by (simp_all add: handlePostConfig_result)
  have ok: "pc_ok ?s"
    by (rule hpc_body_ok) (simp add: pc_ok_def)
  have fails: "isConfigInvalid (pc_err ?s)" if "spec_validation_fails t"
  proof -
    have "checks_fail t"
      using assms(2,3) that by (rule spec_fails_checks_fail)
    then have "pc_err ?s \<noteq> None"
      using hpc_body_err_None [of "hpc_entry t d g" c1 c2] by simp
    with ok show ?thesis by (simp add: pc_ok_def)
  qed
  have tables: "packetSizeToMsgType (pc_globals ?s) = packetSizeToMsgType g
              \<and> msgTypeToJunkSize (pc_globals ?s) = msgTypeToJunkSize g"
    if four: "sint MessageInitiationSize + sint (initPacketJunkSize t) < sint MaxSegmentSize"
      and five: "sint MessageResponseSize + sint (responsePacketJunkSize t) < sint MaxSegmentSize"
      and eq: "sint MessageInitiationSize + sint (initPacketJunkSize t)
              = sint MessageResponseSize + sint (responsePacketJunkSize t)"
  proof -
    have a: "\<not> MaxSegmentSize \<le>s MessageInitiationSize + initPacketJunkSize t"
      using four by (simp add: word_sle_eq i)
    have b: "\<not> MaxSegmentSize \<le>s MessageResponseSize + responsePacketJunkSize t"
      using five by (simp add: word_sle_eq r)
    have "MessageInitiationSize + initPacketJunkSize t
            = MessageResponseSize + responsePacketJunkSize t"
      using eq i r by (intro sint_inject) simp
    then have "MessageInitiationSize + initPacketJunkSize (pc_conf ?s)
                 = MessageResponseSize + responsePacketJunkSize (pc_conf ?s)"
      using a b by (simp add: hpc_body_junk_conf)
    from hpc_body_tables [OF this] show ?thesis by simp
  qed
  from fails tables show ?thesis
    by (simp only: g e) blast
qed

lemma example_conf_isSet: "isSet example_conf" "isSet example_conf_sizes"
  by (simp_all add: example_conf_def example_conf_sizes_def)

text \<open>
  A configuration with junk sizes 0 and 56 is in range, satisfies rules 4 and 5 and
  makes both sizes 148: it is rejected and the tables stay.
\<close>

theorem handlePostConfig_validation_witness:
  "isSet example_conf_sizes
   \<and> sint MessageInitiationSize + sint (initPacketJunkSize example_conf_sizes) < 2 ^ 63
   \<and> sint MessageResponseSize + sint (responsePacketJunkSize example_conf_sizes) < 2 ^ 63
   \<and> spec_validation_fails example_conf_sizes
   \<and> isConfigInvalid (result_err example_result_sizes)
   \<and> sint MessageInitiationSize + sint (initPacketJunkSize example_conf_sizes) < sint MaxSegmentSize
   \<and> sint MessageResponseSize + sint (responsePacketJunkSize example_conf_sizes) < sint MaxSegmentSize
   \<and> sint MessageInitiationSize + sint (initPacketJunkSize example_conf_sizes)
       = sint MessageResponseSize + sint (responsePacketJunkSize example_conf_sizes)
   \<and> packetSizeToMsgType (result_globals example_result_sizes) = packetSizeToMsgType example_globals
   \<and> msgTypeToJunkSize (result_globals example_result_sizes) = msgTypeToJunkSize example_globals"
proof -
  have 1: "isSet example_conf_sizes"
    by (rule example_conf_isSet)
  have 2: "sint MessageInitiationSize + sint (initPacketJunkSize example_conf_sizes) < 2 ^ 63"
    "sint MessageResponseSize + sint (responsePacketJunkSize example_conf_sizes) < 2 ^ 63"
    by (simp_all add: example_conf_sizes_def)
  have 3: "spec_validation_fails example_conf_sizes"
    by (simp add: example_conf_sizes_def spec_validation_fails_def Let_def)
  have 4: "sint MessageInitiationSize + sint (initPacketJunkSize example_conf_sizes) < sint MaxSegmentSize"
    "sint MessageResponseSize + sint (responsePacketJunkSize example_conf_sizes) < sint MaxSegmentSize"
    "sint MessageInitiationSize + sint (initPacketJunkSize example_conf_sizes)
       = sint MessageResponseSize + sint (responsePacketJunkSize example_conf_sizes)"
    by (simp_all add: example_conf_sizes_def)
  show ?thesis
    using 1 2 3 4 handlePostConfig_validation [OF 1 2, of 64 32 example_device example_globals]
    by (simp add: example_result_sizes_def)
qed

text \<open>
  C1 as stated does not hold: the configuration of scenario E4, whose transport header
  repeats the init header, is rejected, and yet the init tag, both dispatch tables and
  the installed init junk size have changed.
\<close>

theorem handlePostConfig_partial_install:
  "isSet example_conf \<and> spec_validation_fails example_conf
   \<and> isConfigInvalid (result_err example_result)
   \<and> MessageInitiationType (result_globals example_result) = 5
   \<and> MessageInitiationType example_globals = 1
   \<and> packetSizeToMsgType (result_globals example_result) 164 = Some 5
   \<and> packetSizeToMsgType example_globals 164 = None
   \<and> msgTypeToJunkSize (result_globals example_result) 6 = Some 16
   \<and> msgTypeToJunkSize example_globals 6 = None
   \<and> initPacketJunkSize (aSecConf (result_device example_result)) = 16
   \<and> initPacketJunkSize (aSecConf example_device) = 0"
proof -
  let ?s = "hpc_body 64 32 (hpc_entry example_conf example_device example_globals)"
  note r = handlePostConfig_result [OF example_conf_isSet(1), of 64 32 example_device example_globals,
      folded example_result_def]
  have fails: "spec_validation_fails example_conf"
    by (simp add: example_conf_def spec_validation_fails_def spec_resolve_magic_def Let_def)
  have checked: "checks_fail example_conf"
    by (simp add: example_conf_def checks_fail_def)
  have "pc_ok ?s"
    by (rule hpc_body_ok) (simp add: pc_ok_def)
  moreover have "pc_err ?s \<noteq> None"
    using checked hpc_body_err_None [of "hpc_entry example_conf example_device example_globals" 64 32]
    by simp
  ultimately have err: "isConfigInvalid (result_err example_result)"
    by (simp add: r pc_ok_def)
  have tag: "MessageInitiationType (result_globals example_result) = 5"
    by (simp add: r hpc_body_tags) (simp add: example_conf_def spec_resolve_magic_def)
  have junk: "initPacketJunkSize (pc_conf ?s) = 16" "responsePacketJunkSize (pc_conf ?s) = 16"
    by (simp_all add: hpc_body_junk_conf)
       (simp_all add: example_conf_def MessageInitiationSize_def MessageResponseSize_def
          MaxSegmentSize_def)
  have tables: "packetSizeToMsgType (pc_globals ?s) 164 = Some 5"
    "msgTypeToJunkSize (pc_globals ?s) 6 = Some 16"
    by (simp_all add: hpc_body_def hpc_dispatchTables_tables hpc_adjustMaxSize_temp)
       (simp_all add: example_conf_def spec_resolve_magic_def MessageInitiationSize_def
          MessageResponseSize_def MaxSegmentSize_def)
  have before: "MessageInitiationType example_globals = 1"
    "packetSizeToMsgType example_globals 164 = None"
    "msgTypeToJunkSize example_globals 6 = None"
    "initPacketJunkSize (aSecConf example_device) = 0"
    by (simp_all add: example_globals_def example_device_def)
  from example_conf_isSet(1) fails err tag tables junk(1) before show ?thesis
    by (simp add: r)
qed


text \<open>
  Outside the range of the theorem the sums of the function wrap around: with the
  largest \<^verbatim>\<open>int\<close> as init junk size, rule 4 fails over the integers, while the function
  computes a negative size, accepts it and returns nil.
\<close>

lemma handlePostConfig_wrapped_size:
  "isSet example_conf_wrap \<and> spec_validation_fails example_conf_wrap
   \<and> \<not> sint MessageInitiationSize + sint (initPacketJunkSize example_conf_wrap) < 2 ^ 63
   \<and> result_err (handlePostConfig 64 32 example_conf_wrap example_device example_globals) = None"
proof -
  have 1: "isSet example_conf_wrap"
    by (simp add: example_conf_wrap_def)
  have 2: "spec_validation_fails example_conf_wrap"
    "\<not> sint MessageInitiationSize + sint (initPacketJunkSize example_conf_wrap) < 2 ^ 63"
    by (simp_all add: example_conf_wrap_def spec_validation_fails_def Let_def)
  have "\<not> checks_fail example_conf_wrap"
    by (simp add: example_conf_wrap_def checks_fail_def MaxSegmentSize_def
          MessageInitiationSize_def MessageResponseSize_def word_sle_eq word_sless_alt)
  then have "pc_err (hpc_body 64 32 (hpc_entry example_conf_wrap example_device example_globals)) = None"
    using hpc_body_err_None [of "hpc_entry example_conf_wrap example_device example_globals" 64 32]
    by simp
  with 1 2 show ?thesis
    by (simp add: handlePostConfig_result [OF 1])
qed

section \<open>Properties of load detection\<close>

text \<open>
  C6: \<^verbatim>\<open>IsUnderLoad\<close> returns true whenever the handshake queue holds at least
  \<^verbatim>\<open>QueueHandshakeSize/8\<close> = 128 messages, and every such reading stores
  \<^verbatim>\<open>now + UnderLoadAfterTime\<close> into \<^verbatim>\<open>underLoadUntil\<close>; below the threshold it stores
  nothing and returns true if and only if the current time is earlier than the stored
  \<^verbatim>\<open>underLoadUntil\<close>.
\<close>
theorem IsUnderLoad_hysteresis:
  "QueueHandshakeSize div 8 = 128
   \<and> (128 \<le>s len_handshake \<longrightarrow>
        IsUnderLoad after now len_handshake device
          = (True, device\<lparr>rate_underLoadUntil := now + after\<rparr>))
   \<and> (len_handshake <s 128 \<longrightarrow>
        IsUnderLoad after now len_handshake device
          = (now <s rate_underLoadUntil device, device))"
proof -
  have q: "QueueHandshakeSize div 8 = 128"
    by (simp add: QueueHandshakeSize_def)
  have "\<not> 128 \<le>s len_handshake" if "len_handshake <s 128"
    using that by (simp add: signed.not_le)
  then show ?thesis
    by (simp add: IsUnderLoad_def q)
qed

text \<open>
  Scenario E2: a reading of 129 at time 5 sets the timestamp one second later; with the
  queue drained the answer is still true at time 7 and false once the second has passed.
\<close>

theorem IsUnderLoad_hysteresis_witness:
  "(128::go_int) \<le>s 129
   \<and> IsUnderLoad 1000000000 5 129 example_device
       = (True, example_device\<lparr>rate_underLoadUntil := 1000000005\<rparr>)
   \<and> (3::go_int) <s 128
   \<and> IsUnderLoad 1000000000 7 3 (example_device\<lparr>rate_underLoadUntil := 1000000005\<rparr>)
       = (True, example_device\<lparr>rate_underLoadUntil := 1000000005\<rparr>)
   \<and> IsUnderLoad 1000000000 1000000005 3 (example_device\<lparr>rate_underLoadUntil := 1000000005\<rparr>)
       = (False, example_device\<lparr>rate_underLoadUntil := 1000000005\<rparr>)"
  using IsUnderLoad_hysteresis [of 129 1000000000 5 example_device]
    IsUnderLoad_hysteresis [of 3 1000000000 7 "example_device\<lparr>rate_underLoadUntil := 1000000005\<rparr>"]
    IsUnderLoad_hysteresis [of 3 1000000000 1000000005 "example_device\<lparr>rate_underLoadUntil := 1000000005\<rparr>"]
  by simp


section \<open>Properties of the device state machine\<close>

lemma closeBindLocked_state [simp]:
  "state_state (snd (closeBindLocked B d)) = state_state d"
  by (simp add: closeBindLocked_def Let_def split: option.splits prod.splits)

lemma downLocked_state [simp]:
  "state_state (snd (downLocked B d)) = state_state d"
proof -
  obtain err d1 where c: "closeBindLocked B d = (err, d1)"
    by (cases "closeBindLocked B d")
  then have "state_state d1 = state_state d"
    using closeBindLocked_state [of B d] by simp
  with c show ?thesis
    by (simp add: downLocked_def BindClose_def Let_def split: option.splits)
qed

lemma changeState_closed:
  assumes "deviceState d = deviceStateClosed"
  shows "changeState B want d =
           Some (None, d\<lparr>dev_log := dev_log d @
             [Verbosef ''Interface closed, ignored requested state %s'' [ArgState want]]\<rparr>)"
  using assms by (simp add: changeState_def Let_def)

lemma request_step_closed:
  assumes "deviceState d = deviceStateClosed"
  shows "\<exists>l. request_step B r d = Some (None, d\<lparr>dev_log := l\<rparr>)"
proof (cases r)
  case ReqUp
  then show ?thesis
    using changeState_closed [OF assms] by (auto simp: request_step_def Up_def)
next
  case ReqDown
  then show ?thesis
    using changeState_closed [OF assms] by (auto simp: request_step_def Down_def)
next
  case ReqClose
  have "d\<lparr>dev_log := dev_log d\<rparr> = d" by simp
  with ReqClose assms show ?thesis
    by (auto simp: request_step_def Close_device_def isClosed_def intro: exI [of _ "dev_log d"])
qed

lemma requests_closed:
  assumes "deviceState d = deviceStateClosed"
  shows "\<exists>l. requests B rs d = Some (d\<lparr>dev_log := l\<rparr>)"
  using assms
proof (induction rs arbitrary: d)
  case Nil
  have "d\<lparr>dev_log := dev_log d\<rparr> = d" by simp
  then show ?case by (auto intro: exI [of _ "dev_log d"])
next
  case (Cons r rs)
  from request_step_closed [OF Cons.prems, of B r]
  obtain l where l: "request_step B r d = Some (None, d\<lparr>dev_log := l\<rparr>)" by blast
  have "deviceState (d\<lparr>dev_log := l\<rparr>) = deviceStateClosed"
    using Cons.prems by (simp add: deviceState_def)
  from Cons.IH [OF this] obtain l' where
    "requests B rs (d\<lparr>dev_log := l\<rparr>) = Some (d\<lparr>dev_log := l, dev_log := l'\<rparr>)" by blast
  with l show ?case by auto
qed

text \<open>
  C3: the closed state is absorbing. For every device whose state word is Closed, each
  of \<^verbatim>\<open>Up\<close>, \<^verbatim>\<open>Down\<close> and \<^verbatim>\<open>Close\<close> returns nil and changes nothing but the log,
  and after any sequence of such requests the state word is still Closed, no call has
  been made to a peer or another collaborator and the bind has not been touched: the up
  and down procedures did not run.
\<close>
theorem closed_is_absorbing:
  assumes "deviceState d = deviceStateClosed"
  shows "(\<forall>r. \<exists>l. request_step B r d = Some (None, d\<lparr>dev_log := l\<rparr>))
       \<and> Close_device B d = d
       \<and> (\<exists>d'. requests B rs d = Some d'
              \<and> deviceState d' = deviceStateClosed
              \<and> calls d' = calls d \<and> net_bind d' = net_bind d
              \<and> d' = d\<lparr>dev_log := dev_log d'\<rparr>)"
proof -
  from requests_closed [OF assms, of B rs]
  obtain l where l: "requests B rs d = Some (d\<lparr>dev_log := l\<rparr>)" by blast
  have "deviceState (d\<lparr>dev_log := l\<rparr>) = deviceStateClosed"
    using assms by (simp add: deviceState_def)
  with l have 3: "\<exists>d'. requests B rs d = Some d'
              \<and> deviceState d' = deviceStateClosed
              \<and> calls d' = calls d \<and> net_bind d' = net_bind d
              \<and> d' = d\<lparr>dev_log := dev_log d'\<rparr>"
    by simp
  have 2: "Close_device B d = d"
    using assms by (simp add: Close_device_def isClosed_def)
  from request_step_closed [OF assms] 2 3 show ?thesis by blast
qed


text \<open>Three requests on the closed example device: two log lines, nothing else.\<close>

theorem closed_is_absorbing_witness:
  "deviceState example_closed = deviceStateClosed
   \<and> request_step example_bind ReqUp example_closed
       = Some (None, example_closed\<lparr>dev_log :=
           [Verbosef ''Interface closed, ignored requested state %s'' [ArgState deviceStateUp]]\<rparr>)
   \<and> Close_device example_bind example_closed = example_closed
   \<and> requests example_bind [ReqUp, ReqClose, ReqDown] example_closed
       = Some (example_closed\<lparr>dev_log :=
           [Verbosef ''Interface closed, ignored requested state %s'' [ArgState deviceStateUp],
            Verbosef ''Interface closed, ignored requested state %s'' [ArgState deviceStateDown]]\<rparr>)"
proof -
  have c: "deviceState example_closed = deviceStateClosed"
    by (simp add: example_closed_def deviceState_def)
  have l: "dev_log example_closed = []"
    by (simp add: example_closed_def example_device_def)
  show ?thesis
    using c closed_is_absorbing [OF c, of example_bind "[ReqUp, ReqClose, ReqDown]"]
    by (simp add: request_step_def Up_def Down_def changeState_def Close_device_def
          isClosed_def deviceState_def l)
qed

subsection \<open>A failed transition to Up\<close>

lemma changeState_up:
  assumes "deviceState d = deviceStateDown"
  shows "changeState B deviceStateUp d =
           (case upLocked B (d\<lparr>state_state := deviceStateUp\<rparr>) of
              None \<Rightarrow> None
            | Some (None, d1) \<Rightarrow> Some (None, changeState_log deviceStateDown deviceStateUp d1)
            | Some (Some e, d1) \<Rightarrow>
                Some (Some e, changeState_log deviceStateDown deviceStateUp
                                (snd (downLocked B (d1\<lparr>state_state := deviceStateDown\<rparr>)))))"
  using assms
  by (simp add: changeState_def changeState_down_def Let_def
        split: option.splits prod.splits)

lemma changeState_down:
  assumes "deviceState d = deviceStateUp"
  shows "changeState B deviceStateDown d =
           Some (fst (downLocked B (d\<lparr>state_state := deviceStateDown\<rparr>)),
                 changeState_log deviceStateUp deviceStateDown
                   (snd (downLocked B (d\<lparr>state_state := deviceStateDown\<rparr>))))"
  using assms
  by (simp add: changeState_def changeState_down_def Let_def
        split: option.splits prod.splits)

text \<open>
  C2, as the code has it: for every device in the Down state, if the up procedure fails
  during the transition to Up, \<^verbatim>\<open>changeState\<close> drives the device back through the down
  procedure, leaves the state word Down and returns the error of the up procedure alone,
  whatever the down procedure returned. The error of the down procedure is what
  \<^verbatim>\<open>changeState\<close> returns on a requested transition to Down, where no up error is
  pending.
\<close>

theorem changeState_up_failure:
  "(deviceState d = deviceStateDown
      \<and> upLocked B (d\<lparr>state_state := deviceStateUp\<rparr>) = Some (Some errUp, d1)
    \<longrightarrow> changeState B deviceStateUp d =
          Some (Some errUp,
                changeState_log deviceStateDown deviceStateUp
                  (snd (downLocked B (d1\<lparr>state_state := deviceStateDown\<rparr>))))
        \<and> map_option (deviceState \<circ> snd) (changeState B deviceStateUp d) = Some deviceStateDown)
   \<and> (deviceState d = deviceStateUp
    \<longrightarrow> map_option fst (changeState B deviceStateDown d)
          = Some (fst (downLocked B (d\<lparr>state_state := deviceStateDown\<rparr>))))"
proof -
  have "deviceState (changeState_log old want
          (snd (downLocked B (d1\<lparr>state_state := deviceStateDown\<rparr>)))) = deviceStateDown"
    for old want
    by (simp add: changeState_log_def deviceState_def)
  then show ?thesis
    by (simp add: changeState_up changeState_down)
qed

lemma example_upLocked:
  "upLocked example_bind (example_device\<lparr>state_state := deviceStateUp\<rparr>)
     = Some (Some (ExternalError ''open''), example_up_failed)"
  by (simp add: example_up_failed_def upLocked_def BindUpdate_def closeBindLocked_def
        isUp_def deviceState_def example_bind_def example_device_def Let_def)

lemma example_downLocked:
  "fst (downLocked example_bind (example_up_failed\<lparr>state_state := deviceStateDown\<rparr>))
     = Some (ExternalError ''close'')"
  by (simp add: example_up_failed_def upLocked_def BindUpdate_def closeBindLocked_def
        downLocked_def BindClose_def
        isUp_def deviceState_def example_bind_def example_device_def Let_def)

text \<open>
  On the example device the bind refuses to open: \<^verbatim>\<open>Up\<close> returns that error and the
  device is Down. Requested to go down from Up, the same bind fails to close, and that
  error is returned.
\<close>

theorem changeState_up_failure_witness:
  "deviceState example_device = deviceStateDown
   \<and> upLocked example_bind (example_device\<lparr>state_state := deviceStateUp\<rparr>)
       = Some (Some (ExternalError ''open''), example_up_failed)
   \<and> map_option fst (changeState example_bind deviceStateUp example_device)
       = Some (Some (ExternalError ''open''))
   \<and> map_option (deviceState \<circ> snd) (changeState example_bind deviceStateUp example_device)
       = Some deviceStateDown
   \<and> deviceState (example_up_failed\<lparr>state_state := deviceStateUp\<rparr>) = deviceStateUp
   \<and> map_option fst (changeState example_bind deviceStateDown
        (example_up_failed\<lparr>state_state := deviceStateUp\<rparr>))
       = Some (Some (ExternalError ''close''))"
proof -
  have 1: "deviceState example_device = deviceStateDown"
    by (simp add: example_device_def deviceState_def)
  have 2: "deviceState (example_up_failed\<lparr>state_state := deviceStateUp\<rparr>) = deviceStateUp"
    by (simp add: deviceState_def)
  show ?thesis
    using 1 2 example_upLocked example_downLocked
      changeState_up_failure [of example_device example_bind "ExternalError ''open''" example_up_failed]
      changeState_up_failure [of "example_up_failed\<lparr>state_state := deviceStateUp\<rparr>" example_bind]
    by auto
qed

text \<open>
  C2 as stated does not hold: on the example device the up procedure fails with "open",
  the down procedure that follows fails with "close", and \<^verbatim>\<open>changeState\<close> returns
  "open" alone, which is not the two errors joined.
\<close>

theorem changeState_drops_down_error:
  "upLocked example_bind (example_device\<lparr>state_state := deviceStateUp\<rparr>)
       = Some (Some (ExternalError ''open''), example_up_failed)
   \<and> fst (downLocked example_bind (example_up_failed\<lparr>state_state := deviceStateDown\<rparr>))
       = Some (ExternalError ''close'')
   \<and> map_option fst (changeState example_bind deviceStateUp example_device)
       = Some (Some (ExternalError ''open''))
   \<and> spec_join_errors (ExternalError ''open'') (Some (ExternalError ''close''))
       \<noteq> Single (ExternalError ''open'')"
proof -
  have "deviceState example_device = deviceStateDown"
    by (simp add: example_device_def deviceState_def)
  then show ?thesis
    using example_upLocked example_downLocked
    by (simp add: changeState_up spec_join_errors_def)
qed

section \<open>Properties of the static identity\<close>

text \<open>
  C9: for every device, \<^verbatim>\<open>SetPrivateKey\<close> with the key that is already installed returns
  nil and leaves the whole device as it was: the peer registry, every peer, the static
  identity, and no call reaches a peer, the allowed-IPs table or the cookie checker.
\<close>
theorem SetPrivateKey_same_key:
  "SetPrivateKey N (staticIdentity_privateKey device) device = (None, device)"
  by (simp add: SetPrivateKey_def)

lemma removal_calls_simps [simp]:
  "removal_calls [] = []"
  "removal_calls ((key, peer) # xs) = AllowedIPsRemoveByPeer peer # PeerStop peer # removal_calls xs"
  by (simp_all add: removal_calls_def)

lemma remove_all_simps [simp]:
  "remove_all [] d = d"
  "remove_all ((key, peer) # xs) d = remove_all xs (removePeerLocked d peer key)"
  by (simp_all add: remove_all_def)

lemma removePeerLocked_fields [simp]:
  "allowedips (removePeerLocked d peer key) = RemoveByPeer peer (allowedips d)"
  "calls (removePeerLocked d peer key) = calls d @ [AllowedIPsRemoveByPeer peer, PeerStop peer]"
  "peers_keyMap (removePeerLocked d peer key) = keyMap_delete key (peers_keyMap d)"
  "peer_store (removePeerLocked d peer key) = peer_store d"
  "staticIdentity_privateKey (removePeerLocked d peer key) = staticIdentity_privateKey d"
  "state_state (removePeerLocked d peer key) = state_state d"
  by (simp_all add: removePeerLocked_def Let_def)

lemma remove_all_calls: "calls (remove_all xs d) = calls d @ removal_calls xs"
  by (induction xs arbitrary: d) auto

lemma remove_all_allowedips:
  "allowedips (remove_all xs d) = filter (\<lambda>(prefix, p). p \<notin> snd ` set xs) (allowedips d)"
proof (induction xs arbitrary: d)
  case Nil
  then show ?case by simp
next
  case (Cons x xs)
  obtain key peer where x: "x = (key, peer)" by (cases x)
  show ?case
    by (auto simp add: x Cons.IH RemoveByPeer_def intro!: filter_cong)
qed

lemma remove_all_keyMap:
  "peers_keyMap (remove_all xs d) = filter (\<lambda>(k, p). k \<notin> fst ` set xs) (peers_keyMap d)"
proof (induction xs arbitrary: d)
  case Nil
  then show ?case by simp
next
  case (Cons x xs)
  obtain key peer where x: "x = (key, peer)" by (cases x)
  show ?case
    by (auto simp add: x Cons.IH keyMap_delete_def intro!: filter_cong)
qed

lemma remove_all_frame [simp]:
  "peer_store (remove_all xs d) = peer_store d"
  "staticIdentity_privateKey (remove_all xs d) = staticIdentity_privateKey d"
  "state_state (remove_all xs d) = state_state d"
  by (induction xs arbitrary: d) auto

lemma fold_removeMatching:
  "fold (removeMatching pk) xs d =
     remove_all (filter (\<lambda>(key, peer). handshake_remoteStatic (peer_store d peer) = pk) xs) d"
  by (induction xs arbitrary: d) (auto simp add: removeMatching_def)


lemma precompute_frame [simp]:
  "peers_keyMap (precompute N x d) = peers_keyMap d"
  "calls (precompute N x d) = calls d"
  "allowedips (precompute N x d) = allowedips d"
  "staticIdentity_privateKey (precompute N x d) = staticIdentity_privateKey d"
  by (cases x; simp add: precompute_def Let_def)+

lemma fold_precompute_frame [simp]:
  "peers_keyMap (fold (precompute N) xs d) = peers_keyMap d"
  "calls (fold (precompute N) xs d) = calls d"
  "allowedips (fold (precompute N) xs d) = allowedips d"
  "staticIdentity_privateKey (fold (precompute N) xs d) = staticIdentity_privateKey d"
  by (induction xs arbitrary: d) auto

lemma precompute_remoteStatic [simp]:
  "handshake_remoteStatic (peer_store (precompute N x d) q) = handshake_remoteStatic (peer_store d q)"
  by (cases x) (simp add: precompute_def Let_def)

lemma fold_precompute_remoteStatic [simp]:
  "handshake_remoteStatic (peer_store (fold (precompute N) xs d) q)
     = handshake_remoteStatic (peer_store d q)"
  by (induction xs arbitrary: d) auto

lemma fold_precompute_other:
  "q \<notin> snd ` set xs \<Longrightarrow> peer_store (fold (precompute N) xs d) q = peer_store d q"
  by (induction xs arbitrary: d) (auto simp add: precompute_def Let_def)

lemma fold_precompute_member:
  "q \<in> snd ` set xs \<Longrightarrow>
   handshake_precomputedStaticStatic (peer_store (fold (precompute N) xs d) q)
     = fst (sharedSecret N (staticIdentity_privateKey d) (handshake_remoteStatic (peer_store d q)))"
proof (induction xs arbitrary: d)
  case Nil
  then show ?case by simp
next
  case (Cons x xs)
  obtain key peer where x: "x = (key, peer)" by (cases x)
  show ?case
  proof (cases "q \<in> snd ` set xs")
    case True
    from Cons.IH [OF True, of "precompute N x d"] show ?thesis by simp
  next
    case False
    with Cons.prems x have q: "q = peer" by auto
    have "peer_store (fold (precompute N) xs (precompute N x d)) q = peer_store (precompute N x d) q"
      using False by (rule fold_precompute_other)
    then show ?thesis
      by (simp add: x q precompute_def Let_def)
  qed
qed

lemma SetPrivateKey_new:
  assumes "sk \<noteq> staticIdentity_privateKey d"
  shows "fst (SetPrivateKey N sk d) = None"
    and "peers_keyMap (snd (SetPrivateKey N sk d)) = survivors N sk d"
    and "calls (snd (SetPrivateKey N sk d)) =
           calls d @ removal_calls (matching N sk d) @ [CookieCheckerInit (publicKey N sk)]
             @ map PeerExpireCurrentKeypairs (map snd (survivors N sk d))"
    and "allowedips (snd (SetPrivateKey N sk d)) =
           filter (\<lambda>(prefix, p). p \<notin> snd ` set (matching N sk d)) (allowedips d)"
    and "staticIdentity_privateKey (snd (SetPrivateKey N sk d)) = sk"
    and "handshake_remoteStatic (peer_store (snd (SetPrivateKey N sk d)) q)
           = handshake_remoteStatic (peer_store d q)"
    and "q \<in> snd ` set (survivors N sk d) \<Longrightarrow>
         handshake_precomputedStaticStatic (peer_store (snd (SetPrivateKey N sk d)) q)
           = fst (sharedSecret N sk (handshake_remoteStatic (peer_store d q)))"
  using assms
  by (simp_all add: SetPrivateKey_def Let_def fold_removeMatching remove_all_keyMap
        remove_all_calls remove_all_allowedips fold_precompute_member
        matching_def survivors_def)

lemma survivors_not_matching:
  assumes "(k, p) \<in> set (survivors N sk d)"
  shows "handshake_remoteStatic (peer_store d p) \<noteq> publicKey N sk"
proof
  assume "handshake_remoteStatic (peer_store d p) = publicKey N sk"
  moreover from assms have "(k, p) \<in> set (peers_keyMap d)"
    by (simp add: survivors_def)
  ultimately have "(k, p) \<in> set (matching N sk d)"
    by (simp add: matching_def)
  then have "k \<in> fst ` set (matching N sk d)"
    by force
  with assms show False
    by (simp add: survivors_def)
qed

text \<open>
  C4: for every device and every private key \<open>sk\<close> different from the installed one,
  \<^verbatim>\<open>SetPrivateKey\<close> returns nil, and afterwards no peer in the registry has the public
  key derived from \<open>sk\<close> as its remote static key; every peer still registered has its
  \<^verbatim>\<open>precomputedStaticStatic\<close> equal to the shared secret of \<open>sk\<close> and its remote static
  key; and \<^verbatim>\<open>ExpireCurrentKeypairs\<close> has been called on it during the operation.
\<close>
theorem SetPrivateKey_rotation:
  assumes "sk \<noteq> staticIdentity_privateKey d"
  shows "fst (SetPrivateKey N sk d) = None
       \<and> (\<forall>(k, p) \<in> set (peers_keyMap (snd (SetPrivateKey N sk d))).
            handshake_remoteStatic (peer_store (snd (SetPrivateKey N sk d)) p) \<noteq> publicKey N sk
          \<and> handshake_precomputedStaticStatic (peer_store (snd (SetPrivateKey N sk d)) p)
              = fst (sharedSecret N sk
                  (handshake_remoteStatic (peer_store (snd (SetPrivateKey N sk d)) p)))
          \<and> PeerExpireCurrentKeypairs p
              \<in> set (drop (length (calls d)) (calls (snd (SetPrivateKey N sk d)))))"
proof -
  note new = SetPrivateKey_new [OF assms]
  have "handshake_remoteStatic (peer_store d p) \<noteq> publicKey N sk
      \<and> handshake_precomputedStaticStatic (peer_store (snd (SetPrivateKey N sk d)) p)
          = fst (sharedSecret N sk (handshake_remoteStatic (peer_store d p)))
      \<and> PeerExpireCurrentKeypairs p
          \<in> set (removal_calls (matching N sk d) @ [CookieCheckerInit (publicKey N sk)]
                  @ map PeerExpireCurrentKeypairs (map snd (survivors N sk d)))"
    if "(k, p) \<in> set (survivors N sk d)" for k p
  proof -
    from that have "p \<in> snd ` set (survivors N sk d)" by force
    then show ?thesis
      using survivors_not_matching [OF that] new(7) [of p] by auto
  qed
  then show ?thesis
    by (auto simp add: new)
qed


lemma example_rotated_eval:
  "peers_keyMap example_rotated = [(12, 1)]"
  "allowedips example_rotated = [([False], 1)]"
  "handshake_remoteStatic (peer_store example_rotated 1) = 12"
  "handshake_precomputedStaticStatic (peer_store example_rotated 1) = 120"
  "calls example_rotated =
     [AllowedIPsRemoveByPeer 0, PeerStop 0, CookieCheckerInit 11, PeerExpireCurrentKeypairs 1]"
  by (simp_all add: example_rotated_def SetPrivateKey_def removeMatching_def precompute_def
        removePeerLocked_def keyMap_delete_def RemoveByPeer_def example_device_def
        example_noise_def example_peers_def Let_def)

text \<open>
  Scenario E5 in small: key 10 has public key 11, the remote static key of peer 0. Peer 0
  goes, peer 1 stays with the new shared secret and is expired.
\<close>

theorem SetPrivateKey_rotation_witness:
  "10 \<noteq> staticIdentity_privateKey example_device
   \<and> fst (SetPrivateKey example_noise 10 example_device) = None
   \<and> publicKey example_noise 10 = 11
   \<and> peers_keyMap example_rotated = [(12, 1)]
   \<and> handshake_remoteStatic (peer_store example_rotated 1) = 12
   \<and> handshake_precomputedStaticStatic (peer_store example_rotated 1) = 120
   \<and> fst (sharedSecret example_noise 10 12) = 120
   \<and> PeerExpireCurrentKeypairs 1 \<in> set (drop (length (calls example_device)) (calls example_rotated))"
proof -
  have 1: "10 \<noteq> staticIdentity_privateKey example_device"
    by (simp add: example_device_def)
  have 2: "calls example_device = []"
    by (simp add: example_device_def)
  show ?thesis
    using 1 SetPrivateKey_rotation [OF 1, of example_noise]
    by (simp add: example_rotated_eval 2 example_noise_def del: One_nat_def)
qed

section \<open>Properties of peer removal\<close>






section \<open>Properties of the bounded pool\<close>

lemma pool_Get_inv:
  assumes "pool_inv p" and "pool_Get p = Some (e, p1)"
  shows "pool_inv p1 \<and> pool_max p1 = pool_max p"
  using assms
  by (auto simp add: pool_inv_def pool_Get_def Let_def split: if_splits list.splits)

lemma pool_Put_inv:
  assumes "pool_inv p" and "pool_Put e p = Some p1"
  shows "pool_inv p1 \<and> pool_max p1 = pool_max p"
  using assms
  by (auto simp add: pool_inv_def pool_Put_def length_remove1 split: if_splits)

lemma pool_trace_inv:
  assumes "pool_inv p" and "pool_trace steps p = Some p1"
  shows "pool_inv p1 \<and> pool_max p1 = pool_max p"
  using assms
proof (induction steps p rule: pool_trace.induct)
  case (1 p)
  then show ?case by simp
next
  case (2 steps p)
  from "2.prems" obtain e p2 where g: "pool_Get p = Some (e, p2)"
    and t: "pool_trace steps p2 = Some p1"
    by (auto split: option.splits)
  from pool_Get_inv [OF "2.prems"(1) g] "2.IH" [of "(e, p2)" e p2] g t
  show ?case by simp
next
  case (3 e steps p)
  from "3.prems" obtain p2 where g: "pool_Put e p = Some p2"
    and t: "pool_trace steps p2 = Some p1"
    by (auto split: option.splits)
  from pool_Put_inv [OF "3.prems"(1) g] "3.IH" [of p2] g t
  show ?case by simp
qed

lemma NewWaitPool_inv: "pool_inv (NewWaitPool m new)"
  by (simp add: pool_inv_def NewWaitPool_def)

text \<open>
  C8: for every pool made with \<open>max > 0\<close> and every trace of \<^verbatim>\<open>Get\<close> and \<^verbatim>\<open>Put\<close>
  steps, the number of elements obtained and not yet returned, which the counter equals,
  never exceeds \<open>max\<close>; and in a state where the count equals \<open>max\<close>, \<^verbatim>\<open>Get\<close> blocks.
\<close>

theorem pool_ceiling:
  assumes "0 < m" and "pool_trace steps (NewWaitPool m new) = Some p"
  shows "length (pool_out p) \<le> m \<and> pool_count p = length (pool_out p)
       \<and> (pool_count p = m \<longrightarrow> pool_Get p = None)"
proof -
  from pool_trace_inv [OF NewWaitPool_inv assms(2)]
  have "pool_inv p" and "pool_max p = m"
    by (simp_all add: NewWaitPool_def)
  with assms(1) show ?thesis
    by (simp add: pool_inv_def pool_Get_def)
qed

text \<open>
  Scenario E6 in small, with ceiling 2: two elements out, a third \<^verbatim>\<open>Get\<close> blocks, and
  after a \<^verbatim>\<open>Put\<close> one more is admitted.
\<close>

theorem pool_ceiling_witness:
  "(0::nat) < 2
   \<and> map_option pool_count
       (pool_trace [Get, Get] (NewWaitPool 2 (\<lambda>_. 0::nat))) = Some 2
   \<and> map_option pool_out
       (pool_trace [Get, Get] (NewWaitPool 2 (\<lambda>_. 0::nat))) = Some [0, 0]
   \<and> pool_trace [Get, Get, Get] (NewWaitPool 2 (\<lambda>_. 0::nat)) = None
   \<and> map_option pool_count
       (pool_trace [Get, Get, Put 0, Get] (NewWaitPool 2 (\<lambda>_. 0::nat))) = Some 2"
proof -
  have t: "pool_trace [Get, Get] (NewWaitPool 2 (\<lambda>_. 0::nat))
      = Some \<lparr>pool_max = 2, pool_factory = (\<lambda>_. 0), pool_count = 2, pool_free = [],
              pool_out = [0, 0]\<rparr>"
    by (simp add: pool_Get_def NewWaitPool_def Let_def)
  show ?thesis
    using pool_ceiling [OF _ t]
    by (simp add: pool_Get_def pool_Put_def NewWaitPool_def Let_def)
qed

end
